theory Spec2Isabelle
  imports Complex_Main "HOL-Library.Char_ord" "HOL-Library.List_Lexorder"
begin

section \<open>Input records (schemas.py)\<close>

text \<open>
  Instants are integers. \<open>scheduled_arrival\<close> is counted in seconds from the midnight
  that \<open>_get_scheduled_start_minutes\<close> reads from the clock; schedule instants are
  counted in minutes, and the extractor's \<open>base_time\<close> is an input.
\<close>

record TrainData =
  train_id :: string
  current_position :: string
  scheduled_arrival :: "int option"
  actual_arrival :: "int option"
  priority :: int
  delay_minutes :: int
  destination :: string
  route :: "string list"

record TrackData =
  segment_id :: string
  from_station :: string
  to_station :: string
  capacity :: int
  headway_minutes :: int

record ConflictData =
  conflict_id :: string
  train_ids :: "string list"
  resource_id :: string
  conflict_type :: string
  severity :: int

record ScheduleEntry =
  train_id_e :: string
  segment_id_e :: string
  start_time :: int
  end_time :: int
  platform :: "int option"

record OptimizationResult =
  schedule :: "ScheduleEntry list"
  objective_value :: real
  solve_time :: real
  conflicts_resolved :: int
  total_delay_minutes :: int

text \<open>
  Python floats are values of a type \<open>'f\<close> that the model leaves open. Their
  arithmetic is not part of the repository: the operations the code uses are inputs,
  collected in \<open>runtime\<close>, together with the order in which Python iterates a
  \<open>set\<close>. \<open>fmul\<close> is the product of two floats, \<open>fmul_int\<close> the product of a
  float and an integer (integers are taken within the 64-bit range of the solver, where
  the conversion cannot overflow), \<open>lit_0_1\<close> and \<open>lit_0_01\<close> the literals \<open>0.1\<close> and
  \<open>0.01\<close>, and \<open>set_order r\<close> lists the elements of \<open>set(r)\<close> as the loop meets them.
\<close>

record 'f OptimizationConfig =
  time_horizon_minutes :: int
  time_step_minutes :: int
  max_solve_time_seconds :: int
  delay_weight :: 'f
  conflict_weight :: 'f
  priority_multiplier :: 'f
  headway_buffer_minutes :: int

record 'f runtime =
  fmul :: "'f \<Rightarrow> 'f \<Rightarrow> 'f"
  fmul_int :: "'f \<Rightarrow> int \<Rightarrow> 'f"
  lit_0_1 :: 'f
  lit_0_01 :: 'f
  set_order :: "string list \<Rightarrow> string list"

datatype error = Exception string | TypeError

definition TRACK_OCCUPATION :: string where "TRACK_OCCUPATION = ''track_occupation''"
definition PLATFORM_CONFLICT :: string where "PLATFORM_CONFLICT = ''platform_conflict''"
definition JUNCTION_CROSSING :: string where "JUNCTION_CROSSING = ''junction_crossing''"
definition HEADWAY_VIOLATION :: string where "HEADWAY_VIOLATION = ''headway_violation''"

section \<open>The constraint model handed to CP-SAT\<close>

text \<open>
  A decision variable is named by the coordinates under which the source stores it:
  the dictionaries \<open>x\<close>, \<open>s\<close>, \<open>c\<close>, \<open>p\<close>, \<open>j\<close> are keyed by ids, so two records with
  the same id share the entry. Every auxiliary \<open>NewBoolVar\<close> call of a builder makes a
  fresh variable; it is named by the loop indices of the call that creates it.
\<close>

datatype var =
    X string string int
  | S string
  | C string
  | P string string
  | J string
  | Leaving nat nat int
  | SamePlatform string nat nat
  | Completing nat int
  | CanStart nat int

datatype lit = Pos var | Neg var

datatype cmp = LE | GE | EQ | NE

type_synonym linexpr = "(int \<times> var) list \<times> int"

datatype cp_call =
    NewBoolVar var
  | NewIntVar var int int
  | Add linexpr cmp linexpr "lit option"
  | AddImplication lit lit

text \<open>
  The objective: a variable, a float constant, a float times an expression, a sum. The
  coefficients are the floats the code computes.
\<close>

datatype 'f objexpr = Var var | Const 'f | Scale 'f "'f objexpr" | Sum "'f objexpr list"

record 'f CpModel =
  calls :: "cp_call list"
  minimize :: "'f objexpr"

definition var_e :: "var \<Rightarrow> linexpr" where
  "var_e v = ([(1, v)], 0)"

definition const_e :: "int \<Rightarrow> linexpr" where
  "const_e k = ([], k)"

definition sum_e :: "var list \<Rightarrow> linexpr" where
  "sum_e vs = (map (\<lambda>v. (1, v)) vs, 0)"

definition plus_e :: "int \<Rightarrow> linexpr \<Rightarrow> linexpr" where
  "plus_e k e = (fst e, k + snd e)"

text \<open>The meaning CP-SAT gives to the calls: an assignment of integers to variables.\<close>

type_synonym assignment = "var \<Rightarrow> int"

fun lit_true :: "assignment \<Rightarrow> lit \<Rightarrow> bool" where
  "lit_true a (Pos v) = (a v = 1)"
| "lit_true a (Neg v) = (a v = 0)"

definition lin_value :: "assignment \<Rightarrow> linexpr \<Rightarrow> int" where
  "lin_value a e = sum_list (map (\<lambda>(k, v). k * a v) (fst e)) + snd e"

fun cmp_holds :: "cmp \<Rightarrow> int \<Rightarrow> int \<Rightarrow> bool" where
  "cmp_holds LE l r = (l \<le> r)"
| "cmp_holds GE l r = (l \<ge> r)"
| "cmp_holds EQ l r = (l = r)"
| "cmp_holds NE l r = (l \<noteq> r)"

fun enforced :: "assignment \<Rightarrow> lit option \<Rightarrow> bool" where
  "enforced a None = True"
| "enforced a (Some l) = lit_true a l"

fun call_holds :: "assignment \<Rightarrow> cp_call \<Rightarrow> bool" where
  "call_holds a (NewBoolVar v) = (a v = 0 \<or> a v = 1)"
| "call_holds a (NewIntVar v lo hi) = (lo \<le> a v \<and> a v \<le> hi)"
| "call_holds a (Add l c r enf) =
     (if enforced a enf then cmp_holds c (lin_value a l) (lin_value a r) else True)"
| "call_holds a (AddImplication l1 l2) = (if lit_true a l1 then lit_true a l2 else True)"

definition feasible :: "'f CpModel \<Rightarrow> assignment \<Rightarrow> bool" where
  "feasible m a = list_all (call_holds a) (calls m)"

text \<open>
  When building the model raised there is no model, and no assignment is feasible for it.
\<close>

definition feasible_built :: "error + 'f CpModel \<Rightarrow> assignment \<Rightarrow> bool" where
  "feasible_built r a = (case r of Inl e \<Rightarrow> False | Inr m \<Rightarrow> feasible m a)"


section \<open>RailwayOptimizer: building the model (optimizer.py)\<close>

definition time_slots :: "'f OptimizationConfig \<Rightarrow> int list" where
  "time_slots cfg = [0 .. time_horizon_minutes cfg - 1]"

definition len_time_slots :: "'f OptimizationConfig \<Rightarrow> int" where
  "len_time_slots cfg = int (length (time_slots cfg))"

text \<open>
  Key tests on the dictionaries: \<open>tid in x\<close> and \<open>tid in p\<close> (the same keys),
  \<open>sid in x[tid]\<close>, \<open>st in p[tid]\<close>.
\<close>

definition has_train :: "TrainData list \<Rightarrow> string \<Rightarrow> bool" where
  "has_train trains tid = (tid \<in> set (map train_id trains))"

definition x_has :: "TrackData list \<Rightarrow> string \<Rightarrow> bool" where
  "x_has tracks sid = (sid \<in> set (map segment_id tracks))"

definition p_has :: "TrainData list \<Rightarrow> string \<Rightarrow> string \<Rightarrow> bool" where
  "p_has trains tid st =
     (case find (\<lambda>tr. train_id tr = tid) (rev trains) of
        None \<Rightarrow> False
      | Some tr \<Rightarrow> st \<in> set (route tr))"

definition x_vars :: "'f OptimizationConfig \<Rightarrow> TrainData list \<Rightarrow> TrackData list \<Rightarrow> cp_call list" where
  "x_vars cfg trains tracks =
     [NewBoolVar (X (train_id train) (segment_id track) t).
        train \<leftarrow> trains, track \<leftarrow> tracks, t \<leftarrow> time_slots cfg]"

definition s_vars :: "'f OptimizationConfig \<Rightarrow> TrainData list \<Rightarrow> cp_call list" where
  "s_vars cfg trains =
     [NewIntVar (S (train_id train)) 0 (min 120 (time_horizon_minutes cfg div 2)).
        train \<leftarrow> trains]"

definition c_vars :: "ConflictData list \<Rightarrow> cp_call list" where
  "c_vars conflicts = [NewBoolVar (C (conflict_id conflict)). conflict \<leftarrow> conflicts]"

definition p_vars :: "'f runtime \<Rightarrow> TrainData list \<Rightarrow> cp_call list" where
  "p_vars rt trains =
     [NewIntVar (P (train_id train) station_code) 1 10.
        train \<leftarrow> trains, station_code \<leftarrow> set_order rt (route train)]"

definition j_vars :: "'f OptimizationConfig \<Rightarrow> TrainData list \<Rightarrow> cp_call list" where
  "j_vars cfg trains =
     [NewIntVar (J (train_id train)) 0 (time_horizon_minutes cfg). train \<leftarrow> trains]"

definition add_capacity_constraints ::
  "'f OptimizationConfig \<Rightarrow> TrainData list \<Rightarrow> TrackData list \<Rightarrow> cp_call list" where
  "add_capacity_constraints cfg trains tracks =
     concat (map (\<lambda>track. concat (map (\<lambda>t.
       let occupancy_vars =
             [X (train_id train) (segment_id track) t.
                train \<leftarrow> trains, x_has tracks (segment_id track)]
       in if occupancy_vars \<noteq> []
          then [Add (sum_e occupancy_vars) LE (const_e (capacity track)) None]
          else [])
       (time_slots cfg))) tracks)"

definition connects :: "TrackData \<Rightarrow> string \<Rightarrow> string \<Rightarrow> bool" where
  "connects track from_st to_st =
     ((from_station track = from_st \<and> to_station track = to_st) \<or>
      (from_station track = to_st \<and> to_station track = from_st))"

definition get_route_segments :: "TrainData \<Rightarrow> TrackData list \<Rightarrow> string list" where
  "get_route_segments train tracks =
     concat (map (\<lambda>(from_st, to_st).
       case find (\<lambda>track. connects track from_st to_st) tracks of
         None \<Rightarrow> []
       | Some track \<Rightarrow> [segment_id track])
       (zip (route train) (tl (route train))))"

definition get_route_segments_from_train :: "TrainData \<Rightarrow> string list" where
  "get_route_segments_from_train train =
     map (\<lambda>(a, b). a @ ''-'' @ b) (zip (route train) (tl (route train)))"

definition get_scheduled_start_minutes :: "TrainData \<Rightarrow> int option" where
  "get_scheduled_start_minutes train =
     (case scheduled_arrival train of
        None \<Rightarrow> None
      | Some secs \<Rightarrow> Some (if 0 \<le> secs then secs div 60 else - ((- secs) div 60)))"

definition leaving_calls ::
  "TrackData list \<Rightarrow> nat \<Rightarrow> string \<Rightarrow> nat \<Rightarrow> string \<Rightarrow> string \<Rightarrow> int \<Rightarrow> cp_call list" where
  "leaving_calls tracks n tid i current_segment next_segment t =
     (if x_has tracks current_segment \<and> x_has tracks next_segment
      then [NewBoolVar (Leaving n i t),
            Add (var_e (X tid current_segment t)) EQ (const_e 1) (Some (Pos (Leaving n i t))),
            Add (var_e (X tid current_segment (t + 1))) EQ (const_e 0) (Some (Pos (Leaving n i t))),
            Add (var_e (X tid next_segment (t + 1))) EQ (const_e 1) (Some (Pos (Leaving n i t)))]
      else [])"

definition route_continuity_of_train ::
  "'f OptimizationConfig \<Rightarrow> TrackData list \<Rightarrow> nat \<Rightarrow> TrainData \<Rightarrow> cp_call list" where
  "route_continuity_of_train cfg tracks n train =
     (let route_segments = get_route_segments train tracks in
      if length route_segments < 2 then []
      else
        concat (map (\<lambda>i.
          concat (map (\<lambda>t.
            leaving_calls tracks n (train_id train) i
              (route_segments ! i) (route_segments ! (i + 1)) t)
            [0 .. len_time_slots cfg - 1 - 1]))
          [0 ..< length route_segments - 1])
        @ (if route_segments \<noteq> []
           then (let last_segment = last route_segments in
                 if x_has tracks last_segment
                 then [Add (sum_e [X (train_id train) last_segment t. t \<leftarrow> time_slots cfg])
                         GE (const_e 1) None]
                 else [])
           else []))"

definition add_route_continuity_constraints ::
  "'f OptimizationConfig \<Rightarrow> TrainData list \<Rightarrow> TrackData list \<Rightarrow> cp_call list" where
  "add_route_continuity_constraints cfg trains tracks =
     concat (map (\<lambda>(n, train). route_continuity_of_train cfg tracks n train)
       (enumerate 0 trains))"

definition headway_pair ::
  "'f OptimizationConfig \<Rightarrow> TrackData list \<Rightarrow> TrackData \<Rightarrow> TrainData \<Rightarrow> TrainData \<Rightarrow> cp_call list" where
  "headway_pair cfg tracks track train1 train2 =
     (let headway = headway_buffer_minutes cfg + 3 in
      if x_has tracks (segment_id track) \<and> x_has tracks (segment_id track)
      then concat (map (\<lambda>t. concat (map (\<lambda>h.
             if t + h < len_time_slots cfg
             then [AddImplication
                     (Pos (X (train_id train1) (segment_id track) t))
                     (Neg (X (train_id train2) (segment_id track) (t + h)))]
             else [])
             [1 .. headway + 1 - 1]))
             [0 .. len_time_slots cfg - headway - 1])
      else [])"

definition add_headway_constraints ::
  "'f OptimizationConfig \<Rightarrow> TrainData list \<Rightarrow> TrackData list \<Rightarrow> cp_call list" where
  "add_headway_constraints cfg trains tracks =
     concat (map (\<lambda>track.
       concat (map (\<lambda>(i, train1).
         concat (map (\<lambda>(j, train2).
           if i \<ge> j then [] else headway_pair cfg tracks track train1 train2)
           (enumerate 0 trains)))
         (enumerate 0 trains)))
       tracks)"

definition station_keys :: "TrainData list \<Rightarrow> string list" where
  "station_keys trains = rev (remdups (rev (concat (map route trains))))"

definition station_train_list :: "TrainData list \<Rightarrow> string \<Rightarrow> TrainData list" where
  "station_train_list trains station =
     [train. train \<leftarrow> trains, st \<leftarrow> route train, st = station]"

definition add_platform_constraints :: "TrainData list \<Rightarrow> cp_call list" where
  "add_platform_constraints trains =
     concat (map (\<lambda>station.
       concat (map (\<lambda>(i, train1).
         concat (map (\<lambda>(j, train2).
           if i \<ge> j then []
           else if has_train trains (train_id train1) \<and> p_has trains (train_id train1) station \<and>
                   has_train trains (train_id train2) \<and> p_has trains (train_id train2) station
           then [NewBoolVar (SamePlatform station i j),
                 Add (var_e (P (train_id train1) station)) EQ (var_e (P (train_id train2) station))
                   (Some (Pos (SamePlatform station i j))),
                 Add (var_e (P (train_id train1) station)) NE (var_e (P (train_id train2) station))
                   (Some (Neg (SamePlatform station i j)))]
           else [])
           (enumerate 0 (station_train_list trains station))))
         (enumerate 0 (station_train_list trains station))))
       (station_keys trains))"

definition conflict_calls ::
  "'f OptimizationConfig \<Rightarrow> TrainData list \<Rightarrow> TrackData list \<Rightarrow> ConflictData \<Rightarrow> cp_call list" where
  "conflict_calls cfg trains tracks conflict =
     (if conflict_type conflict = TRACK_OCCUPATION
      then (case find (\<lambda>t. segment_id t = resource_id conflict) tracks of
              None \<Rightarrow> []
            | Some track \<Rightarrow>
                concat (map (\<lambda>t.
                  let occupancy_vars =
                        [X tid (resource_id conflict) t.
                           tid \<leftarrow> train_ids conflict,
                           has_train trains tid \<and> x_has tracks (resource_id conflict)]
                  in if length occupancy_vars > 1
                     then [Add (sum_e occupancy_vars) LE (const_e (capacity track))
                             (Some (Neg (C (conflict_id conflict)))),
                           Add (sum_e occupancy_vars) GE (const_e (capacity track + 1))
                             (Some (Pos (C (conflict_id conflict))))]
                     else [])
                  (time_slots cfg)))
      else [])"

definition add_conflict_constraints ::
  "'f OptimizationConfig \<Rightarrow> TrainData list \<Rightarrow> TrackData list \<Rightarrow> ConflictData list \<Rightarrow> cp_call list" where
  "add_conflict_constraints cfg trains tracks conflicts =
     concat (map (conflict_calls cfg trains tracks) conflicts)"

definition completing_calls ::
  "'f OptimizationConfig \<Rightarrow> TrackData list \<Rightarrow> nat \<Rightarrow> TrainData \<Rightarrow> cp_call list" where
  "completing_calls cfg tracks n train =
     (let route_segments = get_route_segments_from_train train in
      if route_segments \<noteq> []
      then (let last_segment = last route_segments in
            if x_has tracks last_segment
            then concat (map (\<lambda>t.
                   if t < len_time_slots cfg - 1
                   then [NewBoolVar (Completing n t),
                         Add (var_e (X (train_id train) last_segment t)) EQ (const_e 1)
                           (Some (Pos (Completing n t))),
                         Add (var_e (X (train_id train) last_segment (t + 1))) EQ (const_e 0)
                           (Some (Pos (Completing n t))),
                         Add (var_e (J (train_id train))) EQ (const_e (t + 1))
                           (Some (Pos (Completing n t)))]
                   else [])
                   (time_slots cfg))
            else [])
      else [])"

definition start_delay_calls ::
  "'f OptimizationConfig \<Rightarrow> TrackData list \<Rightarrow> nat \<Rightarrow> TrainData \<Rightarrow> cp_call list" where
  "start_delay_calls cfg tracks n train =
     (case get_scheduled_start_minutes train of
        None \<Rightarrow> []
      | Some scheduled_start_minutes \<Rightarrow>
          (let route_segments = get_route_segments_from_train train in
           if route_segments \<noteq> []
           then (let first_segment = hd route_segments in
                 if x_has tracks first_segment
                 then concat (map (\<lambda>t.
                        if t < scheduled_start_minutes
                        then [Add (var_e (X (train_id train) first_segment t)) EQ (const_e 0) None]
                        else if t \<ge> scheduled_start_minutes
                        then [NewBoolVar (CanStart n t),
                              Add (const_e t) GE
                                (plus_e scheduled_start_minutes (var_e (S (train_id train))))
                                (Some (Pos (CanStart n t)))]
                        else [])
                        (time_slots cfg))
                 else [])
           else []))"

definition add_timing_constraints ::
  "'f OptimizationConfig \<Rightarrow> TrainData list \<Rightarrow> TrackData list \<Rightarrow> cp_call list" where
  "add_timing_constraints cfg trains tracks =
     concat (map (\<lambda>(n, train).
       completing_calls cfg tracks n train @ start_delay_calls cfg tracks n train)
       (enumerate 0 trains))"

text \<open>
  \<open>_set_objective\<close>. Each weight is the float the code computes, left to right. With no
  train, \<open>total_delay\<close> is the integer 0 and the last term is a Python float, not an
  expression; with no conflict either, \<open>sum(objective_terms)\<close> is that float, and
  \<open>model.Minimize\<close> raises \<open>TypeError\<close> on a float.
\<close>

definition set_objective ::
  "'f runtime \<Rightarrow> 'f OptimizationConfig \<Rightarrow> TrainData list \<Rightarrow> ConflictData list
     \<Rightarrow> error + 'f objexpr" where
  "set_objective rt cfg trains conflicts =
     (let delay_terms =
            [Scale (fmul rt (fmul_int rt (delay_weight cfg) (6 - priority train))
                      (priority_multiplier cfg))
               (Var (S (train_id train))). train \<leftarrow> trains];
          journey_terms =
            [Scale (fmul rt (delay_weight cfg) (lit_0_1 rt)) (Var (J (train_id train))).
               train \<leftarrow> trains];
          conflict_terms =
            [Scale (fmul_int rt (conflict_weight cfg) (6 - severity conflict))
               (Var (C (conflict_id conflict))). conflict \<leftarrow> conflicts];
          disruption =
            (if trains = []
             then Const (fmul_int rt (fmul rt (delay_weight cfg) (lit_0_01 rt)) 0)
             else Scale (fmul rt (delay_weight cfg) (lit_0_01 rt))
                    (Sum [Var (S (train_id train)). train \<leftarrow> trains]))
      in if trains = [] \<and> conflicts = [] then Inl TypeError
         else Inr (Sum (delay_terms @ journey_terms @ conflict_terms @ [disruption])))"

text \<open>The calls \<open>_create_model\<close> makes on the model before it sets the objective.\<close>

definition model_calls ::
  "'f runtime \<Rightarrow> 'f OptimizationConfig \<Rightarrow> TrainData list \<Rightarrow> TrackData list
     \<Rightarrow> ConflictData list \<Rightarrow> cp_call list" where
  "model_calls rt cfg trains tracks conflicts =
     x_vars cfg trains tracks @ s_vars cfg trains @ c_vars conflicts @ p_vars rt trains
     @ j_vars cfg trains
     @ add_capacity_constraints cfg trains tracks
     @ add_route_continuity_constraints cfg trains tracks
     @ add_headway_constraints cfg trains tracks
     @ add_platform_constraints trains
     @ add_conflict_constraints cfg trains tracks conflicts
     @ add_timing_constraints cfg trains tracks"

definition create_model ::
  "'f runtime \<Rightarrow> 'f OptimizationConfig \<Rightarrow> TrainData list \<Rightarrow> TrackData list
     \<Rightarrow> ConflictData list \<Rightarrow> error + 'f CpModel" where
  "create_model rt cfg trains tracks conflicts =
     (case set_objective rt cfg trains conflicts of
        Inl e \<Rightarrow> Inl e
      | Inr objective \<Rightarrow>
          Inr \<lparr> calls = model_calls rt cfg trains tracks conflicts, minimize = objective \<rparr>)"

section \<open>Solving and reading the assignment back\<close>

text \<open>
  The solver is outside the repository: \<open>Solve\<close> is an input that gives, for a model,
  the state of the \<open>CpSolver\<close> after \<open>solver.Solve(model)\<close>.
\<close>

datatype status = UNKNOWN | MODEL_INVALID | FEASIBLE | INFEASIBLE | OPTIMAL

record CpSolver =
  solve_status :: status
  Value :: assignment
  ObjectiveValue :: real

definition solve_model ::
  "('f CpModel \<Rightarrow> CpSolver) \<Rightarrow> 'f CpModel \<Rightarrow> ScheduleEntry list option
     \<Rightarrow> CpSolver option" where
  "solve_model Solve model warm_start =
     (let solver = Solve model in
      if solve_status solver = OPTIMAL then Some solver
      else if solve_status solver = FEASIBLE then Some solver
      else None)"

fun scan_ticks ::
  "assignment \<Rightarrow> (int \<Rightarrow> var) \<Rightarrow> int \<Rightarrow> int list \<Rightarrow> int option \<Rightarrow> int option
     \<Rightarrow> int option \<times> int option" where
  "scan_ticks val xv base_time [] start_t end_t = (start_t, end_t)"
| "scan_ticks val xv base_time (t # ts) start_t end_t =
     (if val (xv t) = 1
      then scan_ticks val xv base_time ts
             (if start_t = None then Some (base_time + t) else start_t)
             (Some (base_time + (t + 1)))
      else if start_t \<noteq> None then (start_t, end_t)
      else scan_ticks val xv base_time ts start_t end_t)"

definition platform_of :: "CpSolver \<Rightarrow> TrainData list \<Rightarrow> TrainData \<Rightarrow> int option" where
  "platform_of solver trains train =
     (case find (\<lambda>station_code.
                   has_train trains (train_id train) \<and> p_has trains (train_id train) station_code)
             (route train) of
        None \<Rightarrow> None
      | Some station_code \<Rightarrow> Some (Value solver (P (train_id train) station_code)))"

definition extract_pair ::
  "CpSolver \<Rightarrow> 'f OptimizationConfig \<Rightarrow> int \<Rightarrow> TrainData list \<Rightarrow> TrackData list
     \<Rightarrow> TrainData \<Rightarrow> TrackData \<Rightarrow> ScheduleEntry list" where
  "extract_pair solver cfg base_time trains tracks train track =
     (if x_has tracks (segment_id track)
      then (case scan_ticks (Value solver) (X (train_id train) (segment_id track)) base_time
                   [0 .. time_horizon_minutes cfg - 1] None None of
              (Some s, Some e) \<Rightarrow>
                [\<lparr> train_id_e = train_id train, segment_id_e = segment_id track,
                   start_time = s, end_time = e,
                   platform = platform_of solver trains train \<rparr>]
            | _ \<Rightarrow> [])
      else [])"

definition unsorted_schedule ::
  "CpSolver \<Rightarrow> 'f OptimizationConfig \<Rightarrow> int \<Rightarrow> TrainData list \<Rightarrow> TrackData list
     \<Rightarrow> ScheduleEntry list" where
  "unsorted_schedule solver cfg base_time trains tracks =
     concat (map (\<lambda>train.
       concat (map (\<lambda>track. extract_pair solver cfg base_time trains tracks train track) tracks))
       trains)"

definition extract_schedule ::
  "CpSolver \<Rightarrow> 'f OptimizationConfig \<Rightarrow> int \<Rightarrow> TrainData list \<Rightarrow> TrackData list
     \<Rightarrow> ScheduleEntry list" where
  "extract_schedule solver cfg base_time trains tracks =
     sort_key start_time (unsorted_schedule solver cfg base_time trains tracks)"

record Metrics =
  metrics_objective_value :: real
  metrics_total_delay :: int
  metrics_conflicts_resolved :: int
  average_delay :: real
  average_journey_time :: real

definition calculate_metrics :: "CpSolver \<Rightarrow> TrainData list \<Rightarrow> ConflictData list \<Rightarrow> Metrics" where
  "calculate_metrics solver trains conflicts =
     (let total_delay = sum_list [Value solver (S (train_id train)). train \<leftarrow> trains];
          conflicts_resolved =
            sum_list [1. conflict \<leftarrow> conflicts, Value solver (C (conflict_id conflict)) = 0]
      in \<lparr> metrics_objective_value = ObjectiveValue solver,
           metrics_total_delay = total_delay,
           metrics_conflicts_resolved = conflicts_resolved,
           average_delay =
             (if trains \<noteq> [] then of_int total_delay / of_nat (length trains) else 0),
           average_journey_time =
             (if trains \<noteq> []
              then of_int (sum_list [Value solver (J (train_id train)). train \<leftarrow> trains])
                     / of_nat (length trains)
              else 0) \<rparr>)"

text \<open>
  \<open>optimize\<close>: the clock readings (\<open>base_time\<close> of the extractor, the elapsed
  \<open>solve_time\<close>) are inputs. An exception is an \<open>Inl\<close> result: the one raised while
  the model is built, before the solver is called, or the one \<open>optimize\<close> raises itself.
\<close>

definition optimize ::
  "'f runtime \<Rightarrow> ('f CpModel \<Rightarrow> CpSolver) \<Rightarrow> int \<Rightarrow> real \<Rightarrow> 'f OptimizationConfig
     \<Rightarrow> TrainData list \<Rightarrow> TrackData list \<Rightarrow> ConflictData list \<Rightarrow> int
     \<Rightarrow> ScheduleEntry list option \<Rightarrow> error + OptimizationResult" where
  "optimize rt Solve base_time elapsed config trains tracks conflicts time_horizon warm_start =
     (let cfg = config\<lparr>time_horizon_minutes := time_horizon\<rparr> in
      case create_model rt cfg trains tracks conflicts of
        Inl e \<Rightarrow> Inl e
      | Inr model \<Rightarrow>
          (case solve_model Solve model warm_start of
             Some solver \<Rightarrow>
               (let sched = extract_schedule solver cfg base_time trains tracks;
                    metrics = calculate_metrics solver trains conflicts
                in Inr \<lparr> schedule = sched,
                         objective_value = metrics_objective_value metrics,
                         solve_time = elapsed,
                         conflicts_resolved = metrics_conflicts_resolved metrics,
                         total_delay_minutes = metrics_total_delay metrics \<rparr>)
           | None \<Rightarrow> Inl (Exception ''Optimization failed - no feasible solution found'')))"

text \<open>\<open>GurobiOptimizer.optimize\<close>: both branches call \<open>super().optimize\<close>.\<close>

definition GurobiOptimizer_optimize ::
  "bool \<Rightarrow> 'f runtime \<Rightarrow> ('f CpModel \<Rightarrow> CpSolver) \<Rightarrow> int \<Rightarrow> real \<Rightarrow> 'f OptimizationConfig
     \<Rightarrow> TrainData list \<Rightarrow> TrackData list \<Rightarrow> ConflictData list \<Rightarrow> int
     \<Rightarrow> ScheduleEntry list option \<Rightarrow> error + OptimizationResult" where
  "GurobiOptimizer_optimize gurobi_available rt Solve base_time elapsed config trains tracks
       conflicts time_horizon warm_start =
     (if \<not> gurobi_available
      then optimize rt Solve base_time elapsed config trains tracks conflicts time_horizon
             warm_start
      else optimize rt Solve base_time elapsed config trains tracks conflicts time_horizon
             warm_start)"

section \<open>PerformanceMonitor (performance_monitor.py)\<close>

text \<open>
  \<open>current_metrics\<close> and the entries of \<open>metrics_history\<close> are references to
  \<open>OptimizationMetrics\<close> objects that \<open>end_optimization\<close> mutates in place. The objects
  live in a store, a reference is an index into it, and \<open>start_optimization\<close> allocates.
  Clock, memory and CPU readings are inputs of the calls.
\<close>

record OptimizationMetrics =
  start_time_m :: real
  end_time_m :: "real option"
  solve_time_seconds :: real
  objective_value_m :: real
  num_trains :: int
  num_tracks :: int
  num_conflicts :: int
  conflicts_resolved_m :: int
  total_delay_minutes_m :: int
  solver_status :: string
  memory_usage_mb :: real
  cpu_usage_percent :: real
  variables_count :: int
  constraints_count :: int

record PerformanceMonitor =
  store :: "OptimizationMetrics list"
  metrics_history :: "nat list"
  current_metrics :: "nat option"

definition init_monitor :: PerformanceMonitor where
  "init_monitor = \<lparr> store = [], metrics_history = [], current_metrics = None \<rparr>"

definition new_metrics :: "real \<Rightarrow> int \<Rightarrow> int \<Rightarrow> int \<Rightarrow> OptimizationMetrics" where
  "new_metrics now n_trains n_tracks n_conflicts =
     \<lparr> start_time_m = now, end_time_m = None, solve_time_seconds = 0,
       objective_value_m = 0, num_trains = n_trains, num_tracks = n_tracks,
       num_conflicts = n_conflicts, conflicts_resolved_m = 0,
       total_delay_minutes_m = 0, solver_status = [], memory_usage_mb = 0,
       cpu_usage_percent = 0, variables_count = 0, constraints_count = 0 \<rparr>"

definition start_optimization ::
  "real \<Rightarrow> int \<Rightarrow> int \<Rightarrow> int \<Rightarrow> PerformanceMonitor \<Rightarrow> PerformanceMonitor" where
  "start_optimization now n_trains n_tracks n_conflicts mon =
     mon\<lparr> store := store mon @ [new_metrics now n_trains n_tracks n_conflicts],
          current_metrics := Some (length (store mon)) \<rparr>"

text \<open>The attribute assignments of \<open>end_optimization\<close> on the current object.\<close>

definition record_final ::
  "real \<Rightarrow> real \<Rightarrow> real \<Rightarrow> real \<Rightarrow> int \<Rightarrow> int \<Rightarrow> string \<Rightarrow> OptimizationMetrics
     \<Rightarrow> OptimizationMetrics" where
  "record_final now mem cpu objective resolved total_delay status_name cur =
     cur\<lparr> end_time_m := Some now,
          solve_time_seconds := now - start_time_m cur,
          objective_value_m := objective,
          conflicts_resolved_m := resolved,
          total_delay_minutes_m := total_delay,
          solver_status := status_name,
          memory_usage_mb := mem,
          cpu_usage_percent := cpu \<rparr>"

definition end_optimization ::
  "real \<Rightarrow> real \<Rightarrow> real \<Rightarrow> real \<Rightarrow> int \<Rightarrow> int \<Rightarrow> string \<Rightarrow> PerformanceMonitor
     \<Rightarrow> PerformanceMonitor" where
  "end_optimization now mem cpu objective resolved total_delay status_name mon =
     (case current_metrics mon of
        None \<Rightarrow> mon
      | Some r \<Rightarrow>
          (let cur' = record_final now mem cpu objective resolved total_delay status_name
                        (store mon ! r);
               hist = metrics_history mon @ [r]
           in mon\<lparr> store := (store mon)[r := cur'],
                   metrics_history :=
                     (if length hist > 100 then drop (length hist - 100) hist else hist) \<rparr>))"

datatype monitor_call =
    Start real int int int
  | End real real real real int int string

fun monitor_step :: "PerformanceMonitor \<Rightarrow> monitor_call \<Rightarrow> PerformanceMonitor" where
  "monitor_step mon (Start now a b c) = start_optimization now a b c mon"
| "monitor_step mon (End now mem cpu obj res del st) =
     end_optimization now mem cpu obj res del st mon"

definition run_calls :: "monitor_call list \<Rightarrow> PerformanceMonitor" where
  "run_calls cs = foldl monitor_step init_monitor cs"

definition history_records :: "PerformanceMonitor \<Rightarrow> OptimizationMetrics list" where
  "history_records mon = map (\<lambda>r. store mon ! r) (metrics_history mon)"

section \<open>Which variables a call mentions, which conflicts the builder reifies\<close>

fun lit_var :: "lit \<Rightarrow> var" where
  "lit_var (Pos v) = v"
| "lit_var (Neg v) = v"

fun call_vars :: "cp_call \<Rightarrow> var set" where
  "call_vars (NewBoolVar v) = {v}"
| "call_vars (NewIntVar v lo hi) = {v}"
| "call_vars (Add l c r enf) =
     snd ` set (fst l) \<union> snd ` set (fst r) \<union> (case enf of None \<Rightarrow> {} | Some x \<Rightarrow> {lit_var x})"
| "call_vars (AddImplication l1 l2) = {lit_var l1, lit_var l2}"

text \<open>
  The guards of \<open>_add_conflict_constraints\<close>: the kind is \<open>track_occupation\<close>, the
  resource is the id of an input track, and the train list names input trains at least
  twice (one occupancy variable per entry).
\<close>

definition reified :: "TrainData list \<Rightarrow> TrackData list \<Rightarrow> ConflictData \<Rightarrow> bool" where
  "reified trains tracks q =
     (conflict_type q = TRACK_OCCUPATION
      \<and> find (\<lambda>t. segment_id t = resource_id q) tracks \<noteq> None
      \<and> 1 < length (filter (has_train trains) (train_ids q)))"

section \<open>Notions of the specification\<close>



text \<open>
  The order the specification gives for the schedule: by start instant, ties by train
  id ascending (strings compare as in Python, character by character).
\<close>

definition sorted_by_start_then_train :: "ScheduleEntry list \<Rightarrow> bool" where
  "sorted_by_start_then_train es =
     sorted_wrt (\<lambda>e1 e2. start_time e1 < start_time e2 \<or>
                  (start_time e1 = start_time e2 \<and> train_id_e e1 \<le> train_id_e e2)) es"

text \<open>
  The ring of the specification: a run is opened by \<open>start\<close> and completed by the next
  \<open>end\<close>, which fixes its record; an \<open>end\<close> with no open run records nothing. The ring
  holds the most recent 100 completed runs.
\<close>

fun intended_step ::
  "OptimizationMetrics option \<times> OptimizationMetrics list \<Rightarrow> monitor_call
     \<Rightarrow> OptimizationMetrics option \<times> OptimizationMetrics list" where
  "intended_step (cur, completed) (Start now a b c) = (Some (new_metrics now a b c), completed)"
| "intended_step (cur, completed) (End now mem cpu obj res del st) =
     (case cur of
        None \<Rightarrow> (None, completed)
      | Some m \<Rightarrow> (None, completed @ [record_final now mem cpu obj res del st m]))"

definition completed_runs :: "monitor_call list \<Rightarrow> OptimizationMetrics list" where
  "completed_runs cs = snd (foldl intended_step (None, []) cs)"

definition most_recent :: "nat \<Rightarrow> 'a list \<Rightarrow> 'a list" where
  "most_recent n xs = drop (length xs - n) xs"

text \<open>No \<open>end\<close> call follows another \<open>end\<close> call without a \<open>start\<close> in between.\<close>

fun ends_fresh :: "bool \<Rightarrow> monitor_call list \<Rightarrow> bool" where
  "ends_fresh stale [] = True"
| "ends_fresh stale (Start now a b c # cs) = ends_fresh False cs"
| "ends_fresh stale (End now mem cpu obj res del st # cs) = (\<not> stale \<and> ends_fresh True cs)"

text \<open>The monitor agrees with the ring of the specification.\<close>

definition tracks_intended ::
  "bool \<Rightarrow> PerformanceMonitor \<Rightarrow> OptimizationMetrics option \<times> OptimizationMetrics list \<Rightarrow> bool" where
  "tracks_intended stale mon sp =
     (history_records mon = most_recent 100 (snd sp)
      \<and> (\<forall>r\<in>set (metrics_history mon). r < length (store mon))
      \<and> (if stale then fst sp = None
         else (case fst sp of
                 None \<Rightarrow> current_metrics mon = None
               | Some m \<Rightarrow> (\<exists>r. current_metrics mon = Some r \<and> r < length (store mon)
                             \<and> store mon ! r = m \<and> r \<notin> set (metrics_history mon)))))"

section \<open>Concrete inputs used by the examples\<close>

text \<open>
  The dataclass defaults of \<open>OptimizationConfig\<close>, with the horizon given; a float is
  given by its value. In the example runtime the literals are the binary64 values of
  \<open>0.1\<close> and \<open>0.01\<close> and the products are exact, which is what binary64 gives for
  every product met on the inputs below (factors 1, 2 and 100, integers up to 5).
\<close>

definition example_runtime :: "real runtime" where
  "example_runtime =
     \<lparr> fmul = (\<lambda>x y. x * y), fmul_int = (\<lambda>x n. x * of_int n),
       lit_0_1 = 3602879701896397 / 36028797018963968,
       lit_0_01 = 5764607523034235 / 576460752303423488,
       set_order = remdups \<rparr>"

definition example_config :: "int \<Rightarrow> real OptimizationConfig" where
  "example_config H =
     \<lparr> time_horizon_minutes = H, time_step_minutes = 1, max_solve_time_seconds = 30,
       delay_weight = 1, conflict_weight = 100, priority_multiplier = 2,
       headway_buffer_minutes = 2 \<rparr>"

definition example_train :: "string \<Rightarrow> string list \<Rightarrow> TrainData" where
  "example_train tid stations =
     \<lparr> train_id = tid, current_position = ''S1'', scheduled_arrival = Some 0,
       actual_arrival = None, priority = 1, delay_minutes = 0, destination = ''S2'',
       route = stations \<rparr>"

definition example_track :: "string \<Rightarrow> string \<Rightarrow> string \<Rightarrow> TrackData" where
  "example_track sid a b =
     \<lparr> segment_id = sid, from_station = a, to_station = b, capacity = 1, headway_minutes = 5 \<rparr>"

definition solver_with :: "status \<Rightarrow> real CpModel \<Rightarrow> CpSolver" where
  "solver_with st m = \<lparr> solve_status = st, Value = (\<lambda>v. 0), ObjectiveValue = 0 \<rparr>"

definition headway_gap_assignment :: assignment where
  "headway_gap_assignment v =
     (case v of
        X tid sid t \<Rightarrow>
          (if (tid = ''B'' \<and> (t = 2 \<or> t = 4)) \<or> (tid = ''A'' \<and> t = 3) then 1 else 0)
      | P tid st \<Rightarrow> 1
      | SamePlatform st i j \<Rightarrow> 1
      | _ \<Rightarrow> 0)"

definition headway_ok_assignment :: assignment where
  "headway_ok_assignment v =
     (case v of
        X tid sid t \<Rightarrow> (if tid = ''A'' \<and> t = 0 then 1 else 0)
      | P tid st \<Rightarrow> 1
      | SamePlatform st i j \<Rightarrow> 1
      | _ \<Rightarrow> 0)"

definition example_conflict :: "string \<Rightarrow> string list \<Rightarrow> string \<Rightarrow> ConflictData" where
  "example_conflict kind ids resource =
     \<lparr> conflict_id = ''q1'', train_ids = ids, resource_id = resource,
       conflict_type = kind, severity = 2 \<rparr>"

text \<open>The train \<open>A\<close> on every track at every tick, and the conflict realized.\<close>

definition occupied_assignment :: assignment where
  "occupied_assignment v =
     (case v of
        X tid sid t \<Rightarrow> (if tid = ''A'' then 1 else 0)
      | P tid st \<Rightarrow> 1
      | SamePlatform st i j \<Rightarrow> 1
      | C q \<Rightarrow> 1
      | _ \<Rightarrow> 0)"


definition gap_assignment :: assignment where
  "gap_assignment v =
     (case v of
        X tid sid t \<Rightarrow> (if (sid = ''K1'' \<and> t = 0) \<or> (sid = ''K2'' \<and> t = 2) then 1 else 0)
      | P tid st \<Rightarrow> 1
      | _ \<Rightarrow> 0)"

definition idle_assignment :: "int \<Rightarrow> assignment" where
  "idle_assignment c v =
     (case v of
        P tid st \<Rightarrow> 1
      | SamePlatform st i j \<Rightarrow> 1
      | C q \<Rightarrow> c
      | _ \<Rightarrow> 0)"


definition tie_solver :: CpSolver where
  "tie_solver =
     \<lparr> solve_status = OPTIMAL,
       Value = (\<lambda>v. case v of
                  X tid sid t \<Rightarrow>
                    (if (tid = ''B'' \<and> sid = ''K1'') \<or> (tid = ''A'' \<and> sid = ''K2'') then 1 else 0)
                | P tid st \<Rightarrow> 1 | _ \<Rightarrow> 0),
       ObjectiveValue = 0 \<rparr>"


section \<open>Properties\<close>

subsection \<open>Auxiliary facts\<close>

lemma create_model_calls:
  "create_model rt cfg trains tracks conflicts = Inr m \<Longrightarrow>
     calls m = model_calls rt cfg trains tracks conflicts"
  by (auto simp: create_model_def split: sum.splits)

lemma feasible_call:
  assumes "feasible_built (create_model rt cfg trains tracks conflicts) a"
    and "c \<in> set (model_calls rt cfg trains tracks conflicts)"
  shows "call_holds a c"
proof (cases "create_model rt cfg trains tracks conflicts")
  case (Inl e)
  then show ?thesis using assms(1) by (simp add: feasible_built_def)
next
  case (Inr m)
  then have "feasible m a" using assms(1) by (simp add: feasible_built_def)
  then show ?thesis
    using assms(2) create_model_calls[OF Inr] by (simp add: feasible_def list_all_iff)
qed

lemma len_time_slots_eq: "len_time_slots cfg = max 0 (time_horizon_minutes cfg)"
  by (simp add: len_time_slots_def time_slots_def)

lemma enumerate_nth_mem: "i < length xs \<Longrightarrow> (i, xs ! i) \<in> set (enumerate 0 xs)"
  by (simp add: in_set_enumerate_eq)

lemma in_concat_mapI: "x \<in> set xs \<Longrightarrow> c \<in> set (f x) \<Longrightarrow> c \<in> set (concat (map f xs))"
  by auto

lemma model_calls_iff:
  "c \<in> set (model_calls rt cfg trains tracks conflicts) \<longleftrightarrow>
     c \<in> set (x_vars cfg trains tracks) \<or> c \<in> set (s_vars cfg trains) \<or> c \<in> set (c_vars conflicts)
     \<or> c \<in> set (p_vars rt trains) \<or> c \<in> set (j_vars cfg trains)
     \<or> c \<in> set (add_capacity_constraints cfg trains tracks)
     \<or> c \<in> set (add_route_continuity_constraints cfg trains tracks)
     \<or> c \<in> set (add_headway_constraints cfg trains tracks)
     \<or> c \<in> set (add_platform_constraints trains)
     \<or> c \<in> set (add_conflict_constraints cfg trains tracks conflicts)
     \<or> c \<in> set (add_timing_constraints cfg trains tracks)"
  by (simp add: model_calls_def)

subsection \<open>Headway\<close>

lemma headway_pair_mem:
  assumes "track \<in> set tracks" "0 \<le> t"
    "t < len_time_slots cfg - (headway_buffer_minutes cfg + 3)"
    "1 \<le> h" "h \<le> headway_buffer_minutes cfg + 3"
  shows "AddImplication (Pos (X (train_id t1) (segment_id track) t))
           (Neg (X (train_id t2) (segment_id track) (t + h)))
         \<in> set (headway_pair cfg tracks track t1 t2)"
proof -
  have x: "x_has tracks (segment_id track)" using assms(1) by (simp add: x_has_def)
  have t: "t \<in> set [0 .. len_time_slots cfg - (headway_buffer_minutes cfg + 3) - 1]"
    using assms(2,3) by simp
  have h: "h \<in> set [1 .. headway_buffer_minutes cfg + 3 + 1 - 1]"
    using assms(4,5) by simp
  have g: "t + h < len_time_slots cfg" using assms(3,5) by linarith
  show ?thesis
    unfolding headway_pair_def Let_def set_concat set_map using x t h g
    by (simp only: if_True conj_absorb) force
qed

lemma headway_mem:
  assumes "i < j" "j < length trains" "track \<in> set tracks"
    "c \<in> set (headway_pair cfg tracks track (trains ! i) (trains ! j))"
  shows "c \<in> set (add_headway_constraints cfg trains tracks)"
proof -
  have i: "(i, trains ! i) \<in> set (enumerate 0 trains)"
    using assms(1,2) by (intro enumerate_nth_mem) simp
  have j: "(j, trains ! j) \<in> set (enumerate 0 trains)"
    using assms(2) by (rule enumerate_nth_mem)
  have inner: "c \<in> set (concat (map (\<lambda>(j, train2).
           if i \<ge> j then [] else headway_pair cfg tracks track (trains ! i) train2)
           (enumerate 0 trains)))"
    using assms(1,4) by (intro in_concat_mapI[OF j]) simp
  have mid: "c \<in> set (concat (map (\<lambda>(i, train1).
         concat (map (\<lambda>(j, train2).
           if i \<ge> j then [] else headway_pair cfg tracks track train1 train2)
           (enumerate 0 trains)))
         (enumerate 0 trains)))"
    using inner by (intro in_concat_mapI[OF i]) (simp only: prod.case)
  show ?thesis
    unfolding add_headway_constraints_def using mid
    by (intro in_concat_mapI[OF assms(3)])
qed

text \<open>
  What the builder does enforce: for two trains where the first stands before the second
  in the input list, every input track, every tick \<open>0 \<le> t < H - (hB + 3)\<close> and every
  \<open>h\<close> in \<open>1 \<dots> hB + 3\<close>, the first train on the track at \<open>t\<close> keeps the second off it at
  \<open>t + h\<close>.
\<close>

lemma headway_listed_order:
  assumes "feasible_built (create_model rt cfg trains tracks conflicts) a"
    and "i < j" "j < length trains" "track \<in> set tracks"
    and "0 \<le> t" "t < time_horizon_minutes cfg - (headway_buffer_minutes cfg + 3)"
    and "1 \<le> h" "h \<le> headway_buffer_minutes cfg + 3"
    and "a (X (train_id (trains ! i)) (segment_id track) t) = 1"
  shows "a (X (train_id (trains ! j)) (segment_id track) (t + h)) = 0"
proof -
  have "t < len_time_slots cfg - (headway_buffer_minutes cfg + 3)"
    using assms(6) by (simp add: len_time_slots_eq)
  then have "AddImplication (Pos (X (train_id (trains ! i)) (segment_id track) t))
           (Neg (X (train_id (trains ! j)) (segment_id track) (t + h)))
         \<in> set (headway_pair cfg tracks track (trains ! i) (trains ! j))"
    using assms(4,5,7,8) by (intro headway_pair_mem)
  then have "AddImplication (Pos (X (train_id (trains ! i)) (segment_id track) t))
           (Neg (X (train_id (trains ! j)) (segment_id track) (t + h)))
         \<in> set (add_headway_constraints cfg trains tracks)"
    by (rule headway_mem[OF assms(2,3,4)])
  then have "AddImplication (Pos (X (train_id (trains ! i)) (segment_id track) t))
           (Neg (X (train_id (trains ! j)) (segment_id track) (t + h)))
         \<in> set (model_calls rt cfg trains tracks conflicts)"
    by (simp only: model_calls_iff simp_thms)
  from feasible_call[OF assms(1) this] assms(9) show ?thesis by simp
qed

text \<open>
  Claim C3 at two trains \<open>A\<close>, \<open>B\<close> on one track, horizon 8, buffer 2 (window 5). The
  builder is documented as adding the minimum headway between trains, but it skips every
  pair \<open>i \<ge> j\<close> as a duplicate although the implication is directional, and its tick
  loop stops \<open>hB + 3\<close> ticks before the horizon, which leaves its own bound test
  \<open>t + h < len(time_slots)\<close> without effect. The assignment with \<open>B\<close> on the track at
  ticks 2 and 4 and \<open>A\<close> at tick 3 is feasible: for the ordered pair \<open>(B, A)\<close>, tick 2 and
  \<open>h = 1\<close>, and for the pair \<open>(A, B)\<close>, tick 3 and \<open>h = 1\<close>, both trains are on the track
  inside the window.
\<close>

theorem headway_not_enforced_both_ways:
  "feasible_built (create_model example_runtime (example_config 8)
       [example_train ''A'' [''S1'', ''S2''], example_train ''B'' [''S1'', ''S2'']]
       [example_track ''K1'' ''S1'' ''S2''] []) headway_gap_assignment
   \<and> headway_gap_assignment (X ''B'' ''K1'' 2) = 1
   \<and> headway_gap_assignment (X ''A'' ''K1'' (2 + 1)) = 1
   \<and> headway_gap_assignment (X ''B'' ''K1'' (3 + 1)) = 1"
  by code_simp

subsection \<open>Route continuity\<close>

text \<open>
  Claim C1 at two inputs, horizon 3. A train with the chain \<open>K1, K2\<close> is on \<open>K1\<close> at
  tick 0 and off it at tick 1 without being on \<open>K2\<close> at tick 1: the assignment is
  feasible, because \<open>leaving\<close> is tied to the occupancy variables in one direction only
  and may stay 0. A train whose chain is the single segment \<open>K1\<close> never occupies it:
  the builder leaves the loop body (\<open>continue\<close>) before the last-segment constraint.
\<close>

theorem route_continuity_not_enforced:
  "feasible_built (create_model example_runtime (example_config 3) [example_train ''T'' [''S1'', ''S2'', ''S3'']]
       [example_track ''K1'' ''S1'' ''S2'', example_track ''K2'' ''S2'' ''S3''] []) gap_assignment
   \<and> get_route_segments (example_train ''T'' [''S1'', ''S2'', ''S3''])
        [example_track ''K1'' ''S1'' ''S2'', example_track ''K2'' ''S2'' ''S3''] = [''K1'', ''K2'']
   \<and> gap_assignment (X ''T'' ''K1'' 0) = 1
   \<and> gap_assignment (X ''T'' ''K1'' 1) = 0
   \<and> gap_assignment (X ''T'' ''K2'' 1) = 0
   \<and> feasible_built (create_model example_runtime (example_config 3) [example_train ''T'' [''S1'', ''S2'']]
       [example_track ''K1'' ''S1'' ''S2''] []) (idle_assignment 0)
   \<and> get_route_segments (example_train ''T'' [''S1'', ''S2'']) [example_track ''K1'' ''S1'' ''S2'']
        = [''K1'']
   \<and> idle_assignment 0 (X ''T'' ''K1'' 0) = 0
   \<and> idle_assignment 0 (X ''T'' ''K1'' 1) = 0
   \<and> idle_assignment 0 (X ''T'' ''K1'' 2) = 0"
  by code_simp

subsection \<open>The variable arena\<close>

lemma x_vars_iff:
  "NewBoolVar (X tid sid t) \<in> set (x_vars cfg trains tracks) \<longleftrightarrow>
     tid \<in> train_id ` set trains \<and> sid \<in> segment_id ` set tracks
     \<and> 0 \<le> t \<and> t < time_horizon_minutes cfg"
proof
  assume "NewBoolVar (X tid sid t) \<in> set (x_vars cfg trains tracks)"
  then show "tid \<in> train_id ` set trains \<and> sid \<in> segment_id ` set tracks
     \<and> 0 \<le> t \<and> t < time_horizon_minutes cfg"
    by (auto simp: x_vars_def time_slots_def)
next
  assume r: "tid \<in> train_id ` set trains \<and> sid \<in> segment_id ` set tracks
     \<and> 0 \<le> t \<and> t < time_horizon_minutes cfg"
  then obtain train track where "train \<in> set trains" "tid = train_id train"
    "track \<in> set tracks" "sid = segment_id track" by auto
  moreover have "t \<in> set (time_slots cfg)" using r by (simp add: time_slots_def)
  ultimately show "NewBoolVar (X tid sid t) \<in> set (x_vars cfg trains tracks)"
    unfolding x_vars_def by (auto intro!: bexI[of _ train] bexI[of _ track])
qed

lemma no_x_in_int_vars:
  "NewBoolVar (X tid sid t) \<notin> set (s_vars cfg trains)"
  "NewBoolVar (X tid sid t) \<notin> set (c_vars conflicts)"
  "NewBoolVar (X tid sid t) \<notin> set (p_vars rt trains)"
  "NewBoolVar (X tid sid t) \<notin> set (j_vars cfg trains)"
  by (auto simp: s_vars_def c_vars_def p_vars_def j_vars_def)

lemma no_x_in_capacity:
  "NewBoolVar (X tid sid t) \<notin> set (add_capacity_constraints cfg trains tracks)"
  by (auto simp: add_capacity_constraints_def Let_def split: if_splits)

lemma no_x_in_route_continuity:
  "NewBoolVar (X tid sid t) \<notin> set (add_route_continuity_constraints cfg trains tracks)"
  by (auto simp: add_route_continuity_constraints_def route_continuity_of_train_def
        leaving_calls_def Let_def split: if_splits)

lemma no_x_in_headway:
  "NewBoolVar (X tid sid t) \<notin> set (add_headway_constraints cfg trains tracks)"
  by (auto simp: add_headway_constraints_def headway_pair_def Let_def split: if_splits)

lemma no_x_in_platform:
  "NewBoolVar (X tid sid t) \<notin> set (add_platform_constraints trains)"
  by (auto simp: add_platform_constraints_def split: if_splits)

lemma no_x_in_conflict:
  "NewBoolVar (X tid sid t) \<notin> set (add_conflict_constraints cfg trains tracks conflicts)"
  by (auto simp: add_conflict_constraints_def conflict_calls_def Let_def
        split: if_splits option.splits)

lemma no_x_in_timing:
  "NewBoolVar (X tid sid t) \<notin> set (add_timing_constraints cfg trains tracks)"
  by (auto simp: add_timing_constraints_def completing_calls_def start_delay_calls_def Let_def
        split: if_splits option.splits)

text \<open>
  Claim C5, as the code has it. The arena is dense: an occupancy variable \<open>x[t,k,tick]\<close>
  is created for every input train, every input track and every tick \<open>0 \<le> tick < H\<close>, on
  the train's chain or not, and for no other coordinates. The calls are those of the
  model that \<open>_create_model\<close> returns.
\<close>

theorem x_materialized_for_every_pair:
  "(NewBoolVar (X tid sid t) \<in> set (model_calls rt cfg trains tracks conflicts) \<longleftrightarrow>
      tid \<in> train_id ` set trains \<and> sid \<in> segment_id ` set tracks
      \<and> 0 \<le> t \<and> t < time_horizon_minutes cfg)
   \<and> (\<forall>m. create_model rt cfg trains tracks conflicts = Inr m \<longrightarrow>
          calls m = model_calls rt cfg trains tracks conflicts)"
  using create_model_calls[of rt cfg trains tracks conflicts]
  by (simp only: model_calls_iff x_vars_iff no_x_in_int_vars no_x_in_capacity
        no_x_in_route_continuity no_x_in_headway no_x_in_platform no_x_in_conflict
        no_x_in_timing simp_thms) blast

theorem x_materialized_for_every_pair_witness:
  "create_model example_runtime (example_config 1) [example_train ''T'' [''S1'', ''S2'']]
       [example_track ''K1'' ''S1'' ''S2'', example_track ''K2'' ''S3'' ''S4''] []
     = Inr \<lparr> calls = model_calls example_runtime (example_config 1)
                [example_train ''T'' [''S1'', ''S2'']]
                [example_track ''K1'' ''S1'' ''S2'', example_track ''K2'' ''S3'' ''S4''] [],
             minimize = Sum [Scale (1 * 5 * 2) (Var (S ''T'')),
                             Scale (1 * (3602879701896397 / 36028797018963968)) (Var (J ''T'')),
                             Scale (1 * (5764607523034235 / 576460752303423488))
                               (Sum [Var (S ''T'')])] \<rparr>
   \<and> NewBoolVar (X ''T'' ''K1'' 0) \<in> set (model_calls example_runtime (example_config 1)
       [example_train ''T'' [''S1'', ''S2'']]
       [example_track ''K1'' ''S1'' ''S2'', example_track ''K2'' ''S3'' ''S4''] [])"
proof -
  have b: "create_model example_runtime (example_config 1) [example_train ''T'' [''S1'', ''S2'']]
       [example_track ''K1'' ''S1'' ''S2'', example_track ''K2'' ''S3'' ''S4''] []
     = Inr \<lparr> calls = model_calls example_runtime (example_config 1)
                [example_train ''T'' [''S1'', ''S2'']]
                [example_track ''K1'' ''S1'' ''S2'', example_track ''K2'' ''S3'' ''S4''] [],
             minimize = Sum [Scale (1 * 5 * 2) (Var (S ''T'')),
                             Scale (1 * (3602879701896397 / 36028797018963968)) (Var (J ''T'')),
                             Scale (1 * (5764607523034235 / 576460752303423488))
                               (Sum [Var (S ''T'')])] \<rparr>"
    by (simp add: create_model_def set_objective_def example_runtime_def example_config_def
          example_train_def)
  show ?thesis
    using b x_materialized_for_every_pair [of "''T''" "''K1''" 0 example_runtime
      "example_config 1" "[example_train ''T'' [''S1'', ''S2'']]"
      "[example_track ''K1'' ''S1'' ''S2'', example_track ''K2'' ''S3'' ''S4'']" "[]"]
    by (simp add: example_config_def example_train_def example_track_def)
qed

text \<open>
  Claim C5 as stated fails: the train \<open>T\<close> runs from \<open>S1\<close> to \<open>S2\<close>, the track \<open>K2\<close>
  joins \<open>S3\<close> and \<open>S4\<close> and is not on its chain, and \<open>x[T,K2,0]\<close> is created in the
  model that is returned.
\<close>

theorem sparse_materialization_counterexample:
  "map_sum id calls
       (create_model example_runtime (example_config 1) [example_train ''T'' [''S1'', ''S2'']]
          [example_track ''K1'' ''S1'' ''S2'', example_track ''K2'' ''S3'' ''S4''] [])
     = Inr (model_calls example_runtime (example_config 1) [example_train ''T'' [''S1'', ''S2'']]
          [example_track ''K1'' ''S1'' ''S2'', example_track ''K2'' ''S3'' ''S4''] [])
   \<and> NewBoolVar (X ''T'' ''K2'' 0) \<in> set (model_calls example_runtime (example_config 1)
       [example_train ''T'' [''S1'', ''S2'']]
       [example_track ''K1'' ''S1'' ''S2'', example_track ''K2'' ''S3'' ''S4''] [])
   \<and> ''K2'' \<notin> set (get_route_segments (example_train ''T'' [''S1'', ''S2''])
       [example_track ''K1'' ''S1'' ''S2'', example_track ''K2'' ''S3'' ''S4''])"
proof -
  have built: "map_sum id calls
       (create_model example_runtime (example_config 1) [example_train ''T'' [''S1'', ''S2'']]
          [example_track ''K1'' ''S1'' ''S2'', example_track ''K2'' ''S3'' ''S4''] [])
     = Inr (model_calls example_runtime (example_config 1) [example_train ''T'' [''S1'', ''S2'']]
          [example_track ''K1'' ''S1'' ''S2'', example_track ''K2'' ''S3'' ''S4''] [])"
    by (simp add: create_model_def set_objective_def example_train_def)
  have dense: "NewBoolVar (X ''T'' ''K2'' 0) \<in> set (model_calls example_runtime (example_config 1)
       [example_train ''T'' [''S1'', ''S2'']]
       [example_track ''K1'' ''S1'' ''S2'', example_track ''K2'' ''S3'' ''S4''] [])
   \<and> ''K2'' \<notin> set (get_route_segments (example_train ''T'' [''S1'', ''S2''])
       [example_track ''K1'' ''S1'' ''S2'', example_track ''K2'' ''S3'' ''S4''])"
    by code_simp
  show ?thesis using built dense by blast
qed

subsection \<open>Conflict reification\<close>

lemma lin_value_sum_e: "lin_value a (sum_e vs) = sum_list (map a vs)"
  by (simp add: lin_value_def sum_e_def o_def)

lemma lin_value_const_e: "lin_value a (const_e k) = k"
  by (simp add: lin_value_def const_e_def)

lemma guarded_comprehension:
  "concat (map (\<lambda>x. if pr x then [f x] else []) xs) = map f (filter pr xs)"
  by (induction xs) simp_all

lemma count_guarded:
  "sum_list (concat (map (\<lambda>x. if pr x then [1::int] else []) xs)) = int (length (filter pr xs))"
  by (induction xs) simp_all

lemma conflicts_resolved_count:
  "metrics_conflicts_resolved (calculate_metrics solver trains conflicts) =
     int (length (filter (\<lambda>q. Value solver (C (conflict_id q)) = 0) conflicts))"
  by (simp add: calculate_metrics_def Let_def count_guarded)

lemma found_track_has_x:
  "find (\<lambda>t. segment_id t = resource_id q) tracks = Some track \<Longrightarrow> x_has tracks (resource_id q)"
proof -
  assume "find (\<lambda>t. segment_id t = resource_id q) tracks = Some track"
  then have "track \<in> set tracks \<and> segment_id track = resource_id q"
    by (auto simp: find_Some_iff in_set_conv_nth)
  then show ?thesis by (force simp: x_has_def)
qed

lemma occupancy_vars_eq:
  "x_has tracks (resource_id q) \<Longrightarrow>
     concat (map (\<lambda>tid. if has_train trains tid \<and> x_has tracks (resource_id q)
                 then [X tid (resource_id q) u] else []) (train_ids q))
       = map (\<lambda>tid. X tid (resource_id q) u) (filter (has_train trains) (train_ids q))"
  by (simp add: guarded_comprehension)

lemma conflict_calls_not_reified:
  assumes "\<not> reified trains tracks q"
  shows "conflict_calls cfg trains tracks q = []"
proof (cases "conflict_type q = TRACK_OCCUPATION")
  case False
  then show ?thesis by (simp add: conflict_calls_def)
next
  case kind: True
  show ?thesis
  proof (cases "find (\<lambda>t. segment_id t = resource_id q) tracks")
    case None
    then show ?thesis by (simp add: conflict_calls_def)
  next
    case (Some track)
    with kind assms have few: "\<not> 1 < length (filter (has_train trains) (train_ids q))"
      by (simp add: reified_def)
    have occ: "\<And>u. concat (map (\<lambda>tid. if has_train trains tid \<and> x_has tracks (resource_id q)
                 then [X tid (resource_id q) u] else []) (train_ids q))
        = map (\<lambda>tid. X tid (resource_id q) u) (filter (has_train trains) (train_ids q))"
      by (rule occupancy_vars_eq[OF found_track_has_x[OF Some]])
    show ?thesis
      unfolding conflict_calls_def using kind Some few
      by (simp only: if_True option.case Let_def occ simp_thms length_map if_False)
         simp
  qed
qed

lemma conflict_calls_mem:
  assumes "conflict_type q = TRACK_OCCUPATION"
    and "find (\<lambda>t. segment_id t = resource_id q) tracks = Some track"
    and "0 \<le> t" "t < time_horizon_minutes cfg"
    and "length (filter (has_train trains) (train_ids q)) > 1"
  shows "Add (sum_e (map (\<lambda>tid. X tid (resource_id q) t) (filter (has_train trains) (train_ids q))))
           LE (const_e (capacity track)) (Some (Neg (C (conflict_id q))))
         \<in> set (conflict_calls cfg trains tracks q)"
    and "Add (sum_e (map (\<lambda>tid. X tid (resource_id q) t) (filter (has_train trains) (train_ids q))))
           GE (const_e (capacity track + 1)) (Some (Pos (C (conflict_id q))))
         \<in> set (conflict_calls cfg trains tracks q)"
proof -
  have occ: "\<And>u. concat (map (\<lambda>tid. if has_train trains tid \<and> x_has tracks (resource_id q)
                 then [X tid (resource_id q) u] else []) (train_ids q))
        = map (\<lambda>tid. X tid (resource_id q) u) (filter (has_train trains) (train_ids q))"
    by (rule occupancy_vars_eq[OF found_track_has_x[OF assms(2)]])
  have t: "t \<in> set (time_slots cfg)" using assms(3,4) by (simp add: time_slots_def)
  show "Add (sum_e (map (\<lambda>tid. X tid (resource_id q) t) (filter (has_train trains) (train_ids q))))
           LE (const_e (capacity track)) (Some (Neg (C (conflict_id q))))
         \<in> set (conflict_calls cfg trains tracks q)"
    unfolding conflict_calls_def using assms(1,2,5)
    by (simp only: if_True option.case Let_def occ simp_thms)
       (rule in_concat_mapI[OF t], simp)
  show "Add (sum_e (map (\<lambda>tid. X tid (resource_id q) t) (filter (has_train trains) (train_ids q))))
           GE (const_e (capacity track + 1)) (Some (Pos (C (conflict_id q))))
         \<in> set (conflict_calls cfg trains tracks q)"
    unfolding conflict_calls_def using assms(1,2,5)
    by (simp only: if_True option.case Let_def occ simp_thms)
       (rule in_concat_mapI[OF t], simp)
qed

text \<open>A call depends only on the variables it mentions.\<close>

lemma lit_true_cong: "a (lit_var l) = b (lit_var l) \<Longrightarrow> lit_true a l = lit_true b l"
  by (cases l) simp_all

lemma lin_value_cong:
  assumes "\<forall>v\<in>snd ` set (fst e). a v = b v"
  shows "lin_value a e = lin_value b e"
proof -
  have eq: "map (\<lambda>(k, v). k * a v) (fst e) = map (\<lambda>(k, v). k * b v) (fst e)"
    using assms by (intro map_cong) auto
  show ?thesis unfolding lin_value_def eq ..
qed

lemma call_holds_cong:
  assumes "\<forall>v\<in>call_vars c. a v = b v"
  shows "call_holds a c = call_holds b c"
proof (cases c)
  case (NewBoolVar v)
  then show ?thesis using assms by simp
next
  case (NewIntVar v lo hi)
  then show ?thesis using assms by simp
next
  case (Add l k r enf)
  have l: "lin_value a l = lin_value b l" using assms Add by (intro lin_value_cong) auto
  have r: "lin_value a r = lin_value b r" using assms Add by (intro lin_value_cong) auto
  have e: "enforced a enf = enforced b enf"
  proof (cases enf)
    case None
    then show ?thesis by simp
  next
    case (Some x)
    then have "a (lit_var x) = b (lit_var x)" using assms Add by simp
    then show ?thesis using Some lit_true_cong[of a x b] by simp
  qed
  show ?thesis using Add l r e by simp
next
  case (AddImplication l1 l2)
  have "lit_true a l1 = lit_true b l1" "lit_true a l2 = lit_true b l2"
    using assms AddImplication lit_true_cong[of a l1 b] lit_true_cong[of a l2 b] by simp_all
  then show ?thesis using AddImplication by simp
qed

lemma no_c_in_vars:
  "c \<in> set (x_vars cfg trains tracks) \<Longrightarrow> C cid \<notin> call_vars c"
  "c \<in> set (s_vars cfg trains) \<Longrightarrow> C cid \<notin> call_vars c"
  "c \<in> set (p_vars rt trains) \<Longrightarrow> C cid \<notin> call_vars c"
  "c \<in> set (j_vars cfg trains) \<Longrightarrow> C cid \<notin> call_vars c"
  by (auto simp: x_vars_def s_vars_def p_vars_def j_vars_def)

lemma no_c_in_capacity:
  "c \<in> set (add_capacity_constraints cfg trains tracks) \<Longrightarrow> C cid \<notin> call_vars c"
  by (auto simp: add_capacity_constraints_def Let_def sum_e_def const_e_def split: if_splits)

lemma no_c_in_route_continuity:
  "c \<in> set (add_route_continuity_constraints cfg trains tracks) \<Longrightarrow> C cid \<notin> call_vars c"
  by (auto simp: add_route_continuity_constraints_def route_continuity_of_train_def
        leaving_calls_def Let_def sum_e_def var_e_def const_e_def split: if_splits)

lemma no_c_in_headway:
  "c \<in> set (add_headway_constraints cfg trains tracks) \<Longrightarrow> C cid \<notin> call_vars c"
  by (auto simp: add_headway_constraints_def headway_pair_def Let_def split: if_splits)

lemma no_c_in_platform:
  "c \<in> set (add_platform_constraints trains) \<Longrightarrow> C cid \<notin> call_vars c"
  by (auto simp: add_platform_constraints_def var_e_def split: if_splits)

lemma no_c_in_timing:
  "c \<in> set (add_timing_constraints cfg trains tracks) \<Longrightarrow> C cid \<notin> call_vars c"
  by (auto simp: add_timing_constraints_def completing_calls_def start_delay_calls_def Let_def
        var_e_def const_e_def plus_e_def split: if_splits option.splits)

lemma conflict_calls_vars:
  assumes "c \<in> set (conflict_calls cfg trains tracks q)" and "C cid \<in> call_vars c"
  shows "cid = conflict_id q"
proof (cases "find (\<lambda>t. segment_id t = resource_id q) tracks")
  case None
  then show ?thesis using assms(1)
    by (cases "conflict_type q = TRACK_OCCUPATION") (simp_all add: conflict_calls_def)
next
  case (Some track)
  show ?thesis
  proof (cases "conflict_type q = TRACK_OCCUPATION")
    case False
    then show ?thesis using assms(1) by (simp add: conflict_calls_def)
  next
    case True
    then obtain u where "c \<in> set (let occupancy_vars =
                        [X tid (resource_id q) u.
                           tid \<leftarrow> train_ids q,
                           has_train trains tid \<and> x_has tracks (resource_id q)]
                  in if length occupancy_vars > 1
                     then [Add (sum_e occupancy_vars) LE (const_e (capacity track))
                             (Some (Neg (C (conflict_id q)))),
                           Add (sum_e occupancy_vars) GE (const_e (capacity track + 1))
                             (Some (Pos (C (conflict_id q))))]
                     else [])"
      using assms(1) Some by (auto simp: conflict_calls_def)
    then have "c = Add (sum_e [X tid (resource_id q) u.
                           tid \<leftarrow> train_ids q,
                           has_train trains tid \<and> x_has tracks (resource_id q)])
                      LE (const_e (capacity track)) (Some (Neg (C (conflict_id q))))
             \<or> c = Add (sum_e [X tid (resource_id q) u.
                           tid \<leftarrow> train_ids q,
                           has_train trains tid \<and> x_has tracks (resource_id q)])
                      GE (const_e (capacity track + 1)) (Some (Pos (C (conflict_id q))))"
      by (simp add: Let_def split: if_splits)
    then show ?thesis using assms(2)
      by (auto simp: sum_e_def const_e_def split: if_splits)
  qed
qed

lemma c_is_free:
  assumes feas: "feasible_built (create_model rt cfg trains tracks conflicts) a"
    and none: "\<forall>q'\<in>set conflicts. conflict_id q' = cid \<longrightarrow> \<not> reified trains tracks q'"
    and v: "v = 0 \<or> v = 1"
  shows "feasible_built (create_model rt cfg trains tracks conflicts) (a(C cid := v))"
proof -
  from feas obtain m where m: "create_model rt cfg trains tracks conflicts = Inr m"
    by (cases "create_model rt cfg trains tracks conflicts") (simp_all add: feasible_built_def)
  have "call_holds (a(C cid := v)) c" if c: "c \<in> set (model_calls rt cfg trains tracks conflicts)" for c
  proof -
    have holds: "call_holds a c" by (rule feasible_call[OF feas c])
    consider (cvar) "c \<in> set (c_vars conflicts)"
      | (conf) "c \<in> set (add_conflict_constraints cfg trains tracks conflicts)"
      | (other) "C cid \<notin> call_vars c"
      using c
        no_c_in_vars(1)[where c = c and cid = cid and cfg = cfg and trains = trains
          and tracks = tracks]
        no_c_in_vars(2)[where c = c and cid = cid and cfg = cfg and trains = trains]
        no_c_in_vars(3)[where c = c and cid = cid and rt = rt and trains = trains]
        no_c_in_vars(4)[where c = c and cid = cid and cfg = cfg and trains = trains]
        no_c_in_capacity[where c = c and cid = cid and cfg = cfg and trains = trains
          and tracks = tracks]
        no_c_in_route_continuity[where c = c and cid = cid and cfg = cfg and trains = trains
          and tracks = tracks]
        no_c_in_headway[where c = c and cid = cid and cfg = cfg and trains = trains
          and tracks = tracks]
        no_c_in_platform[where c = c and cid = cid and trains = trains]
        no_c_in_timing[where c = c and cid = cid and cfg = cfg and trains = trains
          and tracks = tracks]
      unfolding model_calls_iff by blast
    then show ?thesis
    proof cases
      case cvar
      then obtain cid' where "c = NewBoolVar (C cid')" by (auto simp: c_vars_def)
      then show ?thesis using holds v by auto
    next
      case conf
      then obtain q' where q': "q' \<in> set conflicts" "c \<in> set (conflict_calls cfg trains tracks q')"
        by (auto simp: add_conflict_constraints_def)
      have "C cid \<notin> call_vars c"
      proof
        assume "C cid \<in> call_vars c"
        then have "cid = conflict_id q'" by (rule conflict_calls_vars[OF q'(2)])
        then have "\<not> reified trains tracks q'" using none q'(1) by simp
        then have "conflict_calls cfg trains tracks q' = []" by (rule conflict_calls_not_reified)
        then show False using q'(2) by simp
      qed
      then have "call_holds (a(C cid := v)) c = call_holds a c"
        by (intro call_holds_cong) auto
      then show ?thesis using holds by simp
    next
      case other
      then have "call_holds (a(C cid := v)) c = call_holds a c"
        by (intro call_holds_cong) auto
      then show ?thesis using holds by simp
    qed
  qed
  then show ?thesis
    using m create_model_calls[OF m] by (simp add: feasible_built_def feasible_def list_all_iff)
qed

lemma reified_forces:
  assumes feas: "feasible_built (create_model rt cfg trains tracks conflicts) a"
    and q: "q \<in> set conflicts" and kind: "conflict_type q = TRACK_OCCUPATION"
    and tr: "find (\<lambda>t. segment_id t = resource_id q) tracks = Some track"
    and many: "1 < length (filter (has_train trains) (train_ids q))"
    and t: "0 \<le> t" "t < time_horizon_minutes cfg"
  shows "((\<Sum>tid\<leftarrow>filter (has_train trains) (train_ids q). a (X tid (resource_id q) t))
            \<le> capacity track \<longrightarrow> a (C (conflict_id q)) = 0)
       \<and> (capacity track + 1
            \<le> (\<Sum>tid\<leftarrow>filter (has_train trains) (train_ids q). a (X tid (resource_id q) t))
            \<longrightarrow> a (C (conflict_id q)) = 1)"
proof -
  let ?occ = "map (\<lambda>tid. X tid (resource_id q) t) (filter (has_train trains) (train_ids q))"
  let ?sum = "\<Sum>tid\<leftarrow>filter (has_train trains) (train_ids q). a (X tid (resource_id q) t)"
  have sum: "lin_value a (sum_e ?occ) = ?sum"
    by (simp add: lin_value_sum_e o_def)
  have "NewBoolVar (C (conflict_id q)) \<in> set (c_vars conflicts)"
    using q by (auto simp: c_vars_def)
  then have "NewBoolVar (C (conflict_id q)) \<in> set (model_calls rt cfg trains tracks conflicts)"
    by (simp only: model_calls_iff simp_thms)
  from feasible_call[OF feas this]
  have bool: "a (C (conflict_id q)) = 0 \<or> a (C (conflict_id q)) = 1"
    by simp
  have "Add (sum_e ?occ) LE (const_e (capacity track)) (Some (Neg (C (conflict_id q))))
         \<in> set (add_conflict_constraints cfg trains tracks conflicts)"
    unfolding add_conflict_constraints_def
    using q conflict_calls_mem(1)[OF kind tr t many]
    by (rule in_concat_mapI[where f = "conflict_calls cfg trains tracks"])
  then have "Add (sum_e ?occ) LE (const_e (capacity track)) (Some (Neg (C (conflict_id q))))
         \<in> set (model_calls rt cfg trains tracks conflicts)"
    by (simp only: model_calls_iff simp_thms)
  from feasible_call[OF feas this]
  have le: "a (C (conflict_id q)) = 0 \<Longrightarrow> ?sum \<le> capacity track"
    by (simp add: sum lin_value_const_e)
  have "Add (sum_e ?occ) GE (const_e (capacity track + 1)) (Some (Pos (C (conflict_id q))))
         \<in> set (add_conflict_constraints cfg trains tracks conflicts)"
    unfolding add_conflict_constraints_def
    using q conflict_calls_mem(2)[OF kind tr t many]
    by (rule in_concat_mapI[where f = "conflict_calls cfg trains tracks"])
  then have "Add (sum_e ?occ) GE (const_e (capacity track + 1)) (Some (Pos (C (conflict_id q))))
         \<in> set (model_calls rt cfg trains tracks conflicts)"
    by (simp only: model_calls_iff simp_thms)
  from feasible_call[OF feas this]
  have ge: "a (C (conflict_id q)) = 1 \<Longrightarrow> capacity track + 1 \<le> ?sum"
    by (simp add: sum lin_value_const_e)
  show ?thesis using bool le ge by auto
qed

text \<open>
  Claim C4, as the code has it. The builder reifies a conflict only behind its guards:
  the kind is \<open>track_occupation\<close>, the resource is the id of an input track (the capacity
  is that of the first such track), and the train list names input trains at least
  twice. For such a conflict and every tick of the grid, with the occupancy summed over
  the listed entries that name an input train, a feasible assignment has \<open>c[q] = 0\<close> when
  the sum is at most the capacity and \<open>c[q] = 1\<close> when it is above. For any other
  conflict the builder emits nothing, and when no conflict with the id of \<open>q\<close> passes the
  guards, \<open>c[q]\<close> is free: a feasible assignment stays feasible with \<open>c[q]\<close> set to 0 or
  to 1. \<open>conflicts_resolved\<close> counts the conflicts with \<open>c[q] = 0\<close>.
\<close>

theorem conflict_reification_track_occupation:
  assumes "q \<in> set conflicts"
  shows "(feasible_built (create_model rt cfg trains tracks conflicts) a
            \<and> conflict_type q = TRACK_OCCUPATION
            \<and> find (\<lambda>t. segment_id t = resource_id q) tracks = Some track
            \<and> 1 < length (filter (has_train trains) (train_ids q))
            \<and> 0 \<le> t \<and> t < time_horizon_minutes cfg
          \<longrightarrow> ((\<Sum>tid\<leftarrow>filter (has_train trains) (train_ids q). a (X tid (resource_id q) t))
                 \<le> capacity track \<longrightarrow> a (C (conflict_id q)) = 0)
             \<and> (capacity track + 1
                 \<le> (\<Sum>tid\<leftarrow>filter (has_train trains) (train_ids q). a (X tid (resource_id q) t))
                 \<longrightarrow> a (C (conflict_id q)) = 1))
       \<and> (\<not> reified trains tracks q \<longrightarrow> conflict_calls cfg trains tracks q = [])
       \<and> (feasible_built (create_model rt cfg trains tracks conflicts) b
            \<and> (\<forall>q'\<in>set conflicts. conflict_id q' = conflict_id q \<longrightarrow> \<not> reified trains tracks q')
            \<and> (v = 0 \<or> v = 1)
          \<longrightarrow> feasible_built (create_model rt cfg trains tracks conflicts)
                (b(C (conflict_id q) := v)))
       \<and> metrics_conflicts_resolved (calculate_metrics solver trains conflicts) =
           int (length (filter (\<lambda>q. Value solver (C (conflict_id q)) = 0) conflicts))"
  using reified_forces[OF _ assms, of rt cfg trains tracks a track t]
    conflict_calls_not_reified[of trains tracks q cfg]
    c_is_free[of rt cfg trains tracks conflicts b "conflict_id q" v]
    conflicts_resolved_count[of solver trains conflicts]
  by blast

text \<open>
  The theorem at the trains \<open>A\<close> and \<open>B\<close> on the track \<open>K1\<close> of capacity 1. With the
  conflict over \<open>[A, B]\<close> and no train on the track the sum is 0 and \<open>c[q1] = 0\<close>; with
  the conflict listing \<open>A\<close> twice and \<open>A\<close> on the track the sum is 2 and \<open>c[q1] = 1\<close>;
  a \<open>platform_conflict\<close> gives no call, and its \<open>c[q1]\<close> may be set to 1.
\<close>

theorem conflict_reification_track_occupation_witness:
  "idle_assignment 0 (C ''q1'') = 0
   \<and> occupied_assignment (C ''q1'') = 1
   \<and> conflict_calls (example_config 2)
        [example_train ''A'' [''S1'', ''S2''], example_train ''B'' [''S1'', ''S2'']]
        [example_track ''K1'' ''S1'' ''S2'']
        (example_conflict PLATFORM_CONFLICT [''A'', ''B''] ''K1'') = []
   \<and> feasible_built (create_model example_runtime (example_config 2)
        [example_train ''A'' [''S1'', ''S2''], example_train ''B'' [''S1'', ''S2'']]
        [example_track ''K1'' ''S1'' ''S2'']
        [example_conflict PLATFORM_CONFLICT [''A'', ''B''] ''K1''])
        ((idle_assignment 0)(C ''q1'' := 1))
   \<and> metrics_conflicts_resolved
        (calculate_metrics (solver_with OPTIMAL \<lparr> calls = [], minimize = Sum [] \<rparr>)
           [example_train ''A'' [''S1'', ''S2''], example_train ''B'' [''S1'', ''S2'']]
           [example_conflict TRACK_OCCUPATION [''A'', ''B''] ''K1'']) = 1"
proof -
  let ?trains = "[example_train ''A'' [''S1'', ''S2''], example_train ''B'' [''S1'', ''S2'']]"
  let ?tracks = "[example_track ''K1'' ''S1'' ''S2'']"
  let ?q1 = "example_conflict TRACK_OCCUPATION [''A'', ''B''] ''K1''"
  let ?q2 = "example_conflict TRACK_OCCUPATION [''A'', ''A''] ''K1''"
  let ?q3 = "example_conflict PLATFORM_CONFLICT [''A'', ''B''] ''K1''"
  have f1: "feasible_built (create_model example_runtime (example_config 2) ?trains ?tracks [?q1])
              (idle_assignment 0)"
    by code_simp
  have f2: "feasible_built (create_model example_runtime (example_config 2) ?trains ?tracks [?q2])
              occupied_assignment"
    by code_simp
  have f3: "feasible_built (create_model example_runtime (example_config 2) ?trains ?tracks [?q3])
              (idle_assignment 0)"
    by code_simp
  have h: "(0::int) \<le> 0 \<and> 0 < time_horizon_minutes (example_config 2)"
    by (simp add: example_config_def)
  have p1: "conflict_type ?q1 = TRACK_OCCUPATION
      \<and> find (\<lambda>t. segment_id t = resource_id ?q1) ?tracks = Some (example_track ''K1'' ''S1'' ''S2'')
      \<and> 1 < length (filter (has_train ?trains) (train_ids ?q1))"
    by (simp add: example_conflict_def example_track_def example_train_def has_train_def)
  have p2: "conflict_type ?q2 = TRACK_OCCUPATION
      \<and> find (\<lambda>t. segment_id t = resource_id ?q2) ?tracks = Some (example_track ''K1'' ''S1'' ''S2'')
      \<and> 1 < length (filter (has_train ?trains) (train_ids ?q2))"
    by (simp add: example_conflict_def example_track_def example_train_def has_train_def)
  have p3: "\<forall>q'\<in>set [?q3]. conflict_id q' = conflict_id ?q3 \<longrightarrow> \<not> reified ?trains ?tracks q'"
    by (simp add: reified_def example_conflict_def TRACK_OCCUPATION_def PLATFORM_CONFLICT_def)
  have s1: "(\<Sum>tid\<leftarrow>filter (has_train ?trains) (train_ids ?q1).
               idle_assignment 0 (X tid (resource_id ?q1) 0))
            \<le> capacity (example_track ''K1'' ''S1'' ''S2'')"
    by (simp add: example_conflict_def example_track_def example_train_def has_train_def
          idle_assignment_def)
  have s2: "capacity (example_track ''K1'' ''S1'' ''S2'') + 1
            \<le> (\<Sum>tid\<leftarrow>filter (has_train ?trains) (train_ids ?q2).
                  occupied_assignment (X tid (resource_id ?q2) 0))"
    by (simp add: example_conflict_def example_track_def example_train_def has_train_def
          occupied_assignment_def)
  have r1: "idle_assignment 0 (C (conflict_id ?q1)) = 0"
    using conflict_reification_track_occupation
      [where q = ?q1 and conflicts = "[?q1]" and rt = example_runtime
        and cfg = "example_config 2" and trains = ?trains and tracks = ?tracks
        and a = "idle_assignment 0" and track = "example_track ''K1'' ''S1'' ''S2''" and t = 0]
      f1 p1 h s1
    by simp
  have r2: "occupied_assignment (C (conflict_id ?q2)) = 1"
    using conflict_reification_track_occupation
      [where q = ?q2 and conflicts = "[?q2]" and rt = example_runtime
        and cfg = "example_config 2" and trains = ?trains and tracks = ?tracks
        and a = occupied_assignment and track = "example_track ''K1'' ''S1'' ''S2''" and t = 0]
      f2 p2 h s2
    by simp
  have r3: "conflict_calls (example_config 2) ?trains ?tracks ?q3 = []
      \<and> feasible_built (create_model example_runtime (example_config 2) ?trains ?tracks [?q3])
          ((idle_assignment 0)(C (conflict_id ?q3) := 1))"
    using conflict_reification_track_occupation
      [where q = ?q3 and conflicts = "[?q3]" and rt = example_runtime
        and cfg = "example_config 2" and trains = ?trains and tracks = ?tracks
        and b = "idle_assignment 0" and v = 1]
      f3 p3
    by simp
  have r4: "metrics_conflicts_resolved
          (calculate_metrics (solver_with OPTIMAL \<lparr> calls = [], minimize = Sum [] \<rparr>)
             ?trains [?q1])
        = int (length (filter
            (\<lambda>q. Value (solver_with OPTIMAL \<lparr> calls = [], minimize = Sum [] \<rparr>) (C (conflict_id q)) = 0)
            [?q1]))"
    using conflict_reification_track_occupation
      [where q = ?q1 and conflicts = "[?q1]" and rt = example_runtime
        and cfg = "example_config 2" and trains = ?trains and tracks = ?tracks
        and a = "idle_assignment 0" and track = "example_track ''K1'' ''S1'' ''S2''" and t = 0
        and b = "idle_assignment 0" and v = 0
        and solver = "solver_with OPTIMAL \<lparr> calls = [], minimize = Sum [] \<rparr>"]
    by simp
  show ?thesis using r1 r2 r3 r4
    by (simp add: example_conflict_def solver_with_def)
qed

text \<open>
  Claim C4 as stated fails outside the guards: with no train on the track, \<open>c[q1] = 1\<close>
  is feasible for a \<open>platform_conflict\<close>, for a \<open>track_occupation\<close> conflict that lists
  one train, and for one whose resource is no input track.
\<close>

theorem conflict_reification_any_kind_counterexample:
  "feasible_built (create_model example_runtime (example_config 2)
       [example_train ''A'' [''S1'', ''S2''], example_train ''B'' [''S1'', ''S2'']]
       [example_track ''K1'' ''S1'' ''S2'']
       [example_conflict PLATFORM_CONFLICT [''A'', ''B''] ''K1'']) (idle_assignment 1)
   \<and> idle_assignment 1 (X ''A'' ''K1'' 0) + idle_assignment 1 (X ''B'' ''K1'' 0)
        \<le> capacity (example_track ''K1'' ''S1'' ''S2'')
   \<and> idle_assignment 1 (C ''q1'') = 1
   \<and> feasible_built (create_model example_runtime (example_config 2)
       [example_train ''A'' [''S1'', ''S2''], example_train ''B'' [''S1'', ''S2'']]
       [example_track ''K1'' ''S1'' ''S2'']
       [example_conflict TRACK_OCCUPATION [''A''] ''K1'']) (idle_assignment 1)
   \<and> idle_assignment 1 (X ''A'' ''K1'' 0) \<le> capacity (example_track ''K1'' ''S1'' ''S2'')
   \<and> feasible_built (create_model example_runtime (example_config 2)
       [example_train ''A'' [''S1'', ''S2''], example_train ''B'' [''S1'', ''S2'']]
       [example_track ''K1'' ''S1'' ''S2'']
       [example_conflict TRACK_OCCUPATION [''A'', ''B''] ''K9'']) (idle_assignment 1)
   \<and> idle_assignment 1 (X ''A'' ''K9'' 0) + idle_assignment 1 (X ''B'' ''K9'' 0) = 0"
  by code_simp

subsection \<open>Objective\<close>




subsection \<open>Failure semantics and the Gurobi back end\<close>

text \<open>
  Claim C7. \<open>optimize\<close> returns a result exactly when the model was built and the solver
  status is \<open>OPTIMAL\<close> or \<open>FEASIBLE\<close>, and the schedule of the result is the one
  extracted from the solver; for \<open>INFEASIBLE\<close> and for \<open>UNKNOWN\<close> it raises the same
  exception, "no feasible solution found". When building the model raises, the solver
  is not called and that exception is what \<open>optimize\<close> raises.
\<close>

theorem optimize_failure_semantics:
  "((\<exists>r. optimize rt Solve base_time elapsed config trains tracks conflicts H warm_start = Inr r)
      \<longleftrightarrow> (\<exists>m. create_model rt (config\<lparr>time_horizon_minutes := H\<rparr>) trains tracks conflicts = Inr m
                \<and> solve_status (Solve m) \<in> {OPTIMAL, FEASIBLE}))
   \<and> (\<forall>m. create_model rt (config\<lparr>time_horizon_minutes := H\<rparr>) trains tracks conflicts = Inr m \<longrightarrow>
          (solve_status (Solve m) \<in> {OPTIMAL, FEASIBLE} \<longrightarrow>
             (\<exists>r. optimize rt Solve base_time elapsed config trains tracks conflicts H warm_start
                     = Inr r
                \<and> schedule r = extract_schedule (Solve m) (config\<lparr>time_horizon_minutes := H\<rparr>)
                                 base_time trains tracks))
          \<and> (solve_status (Solve m) \<in> {INFEASIBLE, UNKNOWN} \<longrightarrow>
               optimize rt Solve base_time elapsed config trains tracks conflicts H warm_start
                 = Inl (Exception ''Optimization failed - no feasible solution found'')))
   \<and> (\<forall>e. create_model rt (config\<lparr>time_horizon_minutes := H\<rparr>) trains tracks conflicts = Inl e \<longrightarrow>
          optimize rt Solve base_time elapsed config trains tracks conflicts H warm_start = Inl e)"
proof (cases "create_model rt (config\<lparr>time_horizon_minutes := H\<rparr>) trains tracks conflicts")
  case (Inl e)
  then show ?thesis by (simp add: optimize_def Let_def)
next
  case (Inr m)
  then show ?thesis
    by (cases "solve_status (Solve m)") (simp_all add: optimize_def solve_model_def Let_def)
qed

text \<open>
  The theorem at one train on one track, horizon 2, for the three statuses, and at the
  empty problem, where the model is not built.
\<close>

theorem optimize_failure_semantics_witness:
  "optimize example_runtime (solver_with INFEASIBLE) 0 0 (example_config 240)
       [example_train ''T'' [''S1'', ''S2'']] [example_track ''K1'' ''S1'' ''S2''] [] 2 None
     = Inl (Exception ''Optimization failed - no feasible solution found'')
   \<and> optimize example_runtime (solver_with UNKNOWN) 0 0 (example_config 240)
       [example_train ''T'' [''S1'', ''S2'']] [example_track ''K1'' ''S1'' ''S2''] [] 2 None
     = Inl (Exception ''Optimization failed - no feasible solution found'')
   \<and> (\<exists>r. optimize example_runtime (solver_with OPTIMAL) 0 0 (example_config 240)
       [example_train ''T'' [''S1'', ''S2'']] [example_track ''K1'' ''S1'' ''S2''] [] 2 None = Inr r)
   \<and> optimize example_runtime (solver_with OPTIMAL) 0 0 (example_config 240) [] [] [] 240 None
     = Inl TypeError"
proof -
  obtain m where m: "create_model example_runtime ((example_config 240)\<lparr>time_horizon_minutes := 2\<rparr>)
          [example_train ''T'' [''S1'', ''S2'']] [example_track ''K1'' ''S1'' ''S2''] [] = Inr m"
    by (auto simp: create_model_def set_objective_def example_train_def)
  have e: "create_model example_runtime ((example_config 240)\<lparr>time_horizon_minutes := 240\<rparr>)
          [] [] [] = Inl TypeError"
    by (simp add: create_model_def set_objective_def)
  show ?thesis
    using m e
      optimize_failure_semantics [where rt = example_runtime and Solve = "solver_with INFEASIBLE"
        and config = "example_config 240" and H = 2
        and trains = "[example_train ''T'' [''S1'', ''S2'']]"
        and tracks = "[example_track ''K1'' ''S1'' ''S2'']"
        and conflicts = "[]" and base_time = 0 and elapsed = 0 and warm_start = None]
      optimize_failure_semantics [where rt = example_runtime and Solve = "solver_with UNKNOWN"
        and config = "example_config 240" and H = 2
        and trains = "[example_train ''T'' [''S1'', ''S2'']]"
        and tracks = "[example_track ''K1'' ''S1'' ''S2'']"
        and conflicts = "[]" and base_time = 0 and elapsed = 0 and warm_start = None]
      optimize_failure_semantics [where rt = example_runtime and Solve = "solver_with OPTIMAL"
        and config = "example_config 240" and H = 2
        and trains = "[example_train ''T'' [''S1'', ''S2'']]"
        and tracks = "[example_track ''K1'' ''S1'' ''S2'']"
        and conflicts = "[]" and base_time = 0 and elapsed = 0 and warm_start = None]
      optimize_failure_semantics [where rt = example_runtime and Solve = "solver_with OPTIMAL"
        and config = "example_config 240" and H = 240
        and trains = "[]" and tracks = "[]"
        and conflicts = "[]" and base_time = 0 and elapsed = 0 and warm_start = None]
    by (simp add: solver_with_def)
qed

text \<open>
  Claim C10. \<open>GurobiOptimizer.optimize\<close> returns what \<open>RailwayOptimizer.optimize\<close>
  returns on the same arguments, whether or not \<open>gurobipy\<close> could be imported.
\<close>

theorem gurobi_optimize_delegates:
  "GurobiOptimizer_optimize gurobi_available rt Solve base_time elapsed config trains tracks
     conflicts H warm_start
   = optimize rt Solve base_time elapsed config trains tracks conflicts H warm_start"
  by (simp add: GurobiOptimizer_optimize_def)

subsection \<open>Extraction\<close>












text \<open>
  Claim C8, as the code has it. The sort key is the start instant alone and Python's
  \<open>sorted\<close> is stable: the schedule is sorted ascending by start instant, and the
  entries of one start instant stand in the order in which the loops produced them
  (trains in input order, for each train the tracks in input order).
\<close>

theorem extract_schedule_sorted_stable:
  "sorted (map start_time (extract_schedule solver cfg base_time trains tracks))
   \<and> (\<forall>k. filter (\<lambda>e. start_time e = k) (extract_schedule solver cfg base_time trains tracks)
          = filter (\<lambda>e. start_time e = k) (unsorted_schedule solver cfg base_time trains tracks))"
  by (simp add: extract_schedule_def sort_key_stable)

text \<open>
  Claim C8 as stated fails: the train \<open>B\<close> is given before the train \<open>A\<close>, both start
  at tick 0 on their own tracks (a feasible assignment), and \<open>B\<close> stays before \<open>A\<close>.
\<close>

theorem ties_by_train_id_counterexample:
  "feasible_built (create_model example_runtime (example_config 1)
       [example_train ''B'' [''S1'', ''S2''], example_train ''A'' [''S3'', ''S4'']]
       [example_track ''K1'' ''S1'' ''S2'', example_track ''K2'' ''S3'' ''S4''] []) (Value tie_solver)
   \<and> \<not> sorted_by_start_then_train
        (extract_schedule tie_solver (example_config 1) 0
           [example_train ''B'' [''S1'', ''S2''], example_train ''A'' [''S3'', ''S4'']]
           [example_track ''K1'' ''S1'' ''S2'', example_track ''K2'' ''S3'' ''S4''])"
  by code_simp

subsection \<open>Performance monitor\<close>

lemma history_bound_step:
  "length (metrics_history mon) \<le> 100 \<Longrightarrow> length (metrics_history (monitor_step mon c)) \<le> 100"
  by (cases c) (auto simp: start_optimization_def end_optimization_def Let_def split: option.splits)

lemma history_bound_fold:
  "length (metrics_history mon) \<le> 100 \<Longrightarrow>
     length (metrics_history (foldl monitor_step mon cs)) \<le> 100"
  by (induction cs arbitrary: mon) (simp_all add: history_bound_step)

text \<open>After every sequence of calls the history holds at most 100 references.\<close>

lemma metrics_history_at_most_100: "length (metrics_history (run_calls cs)) \<le> 100"
  unfolding run_calls_def by (rule history_bound_fold) (simp add: init_monitor_def)

lemma most_recent_snoc:
  "0 < n \<Longrightarrow> most_recent n (most_recent n xs @ [y]) = most_recent n (xs @ [y])"
proof -
  assume "0 < n"
  then have "Suc (length xs) - (length xs - n + n) + (length xs - n) = Suc (length xs) - n"
    by arith
  then show ?thesis using \<open>0 < n\<close> by (auto simp: most_recent_def)
qed

lemma truncate_is_most_recent:
  "(if length hist > 100 then drop (length hist - 100) hist else hist) = most_recent 100 hist"
  by (simp add: most_recent_def)

lemma map_most_recent: "map f (most_recent n xs) = most_recent n (map f xs)"
  by (simp add: most_recent_def drop_map)

lemma set_most_recent: "set (most_recent n xs) \<subseteq> set xs"
  by (simp add: most_recent_def set_drop_subset)

lemma tracks_start:
  assumes "tracks_intended stale mon sp"
  shows "tracks_intended False (monitor_step mon (Start now a b c)) (intended_step sp (Start now a b c))"
proof -
  obtain cur completed where sp: "sp = (cur, completed)" by (cases sp)
  from assms have h: "history_records mon = most_recent 100 completed"
    and lt: "\<forall>r\<in>set (metrics_history mon). r < length (store mon)"
    by (auto simp: tracks_intended_def sp)
  have "map (\<lambda>r. (store mon @ [new_metrics now a b c]) ! r) (metrics_history mon)
        = map (\<lambda>r. store mon ! r) (metrics_history mon)"
    using lt by (auto simp: nth_append)
  then have hr: "history_records (start_optimization now a b c mon) = history_records mon"
    by (simp add: start_optimization_def history_records_def)
  have fresh: "length (store mon) \<notin> set (metrics_history mon)" using lt by auto
  show ?thesis using h lt fresh
    by (auto simp: tracks_intended_def sp hr) (auto simp: start_optimization_def)
qed

lemma tracks_end:
  assumes "tracks_intended False mon sp"
  shows "tracks_intended True (monitor_step mon (End now mem cpu obj res del st))
           (intended_step sp (End now mem cpu obj res del st))"
proof -
  obtain cur completed where sp: "sp = (cur, completed)" by (cases sp)
  from assms have h: "history_records mon = most_recent 100 completed"
    and lt: "\<forall>r\<in>set (metrics_history mon). r < length (store mon)"
    by (auto simp: tracks_intended_def sp)
  show ?thesis
  proof (cases cur)
    case None
    then have "current_metrics mon = None" using assms by (simp add: tracks_intended_def sp)
    then show ?thesis using h lt None
      by (simp add: tracks_intended_def sp end_optimization_def)
  next
    case (Some m)
    then obtain r where r: "current_metrics mon = Some r" "r < length (store mon)"
      "store mon ! r = m" "r \<notin> set (metrics_history mon)"
      using assms by (auto simp: tracks_intended_def sp)
    let ?m' = "record_final now mem cpu obj res del st m"
    let ?store' = "(store mon)[r := ?m']"
    have old: "map (\<lambda>a. ?store' ! a) (metrics_history mon) = history_records mon"
      unfolding history_records_def
    proof (rule map_cong[OF refl])
      fix a assume "a \<in> set (metrics_history mon)"
      then have "r \<noteq> a" using r(4) by blast
      then show "?store' ! a = store mon ! a" by simp
    qed
    have "map (\<lambda>a. ?store' ! a) (most_recent 100 (metrics_history mon @ [r]))
          = most_recent 100 (map (\<lambda>a. ?store' ! a) (metrics_history mon @ [r]))"
      by (rule map_most_recent)
    also have "\<dots> = most_recent 100 (most_recent 100 completed @ [?m'])"
      using old h r(2) by simp
    also have "\<dots> = most_recent 100 (completed @ [?m'])"
      by (rule most_recent_snoc) simp
    finally have rec: "map (\<lambda>a. ?store' ! a) (most_recent 100 (metrics_history mon @ [r]))
          = most_recent 100 (completed @ [?m'])" .
    have lt': "\<forall>a\<in>set (most_recent 100 (metrics_history mon @ [r])). a < length ?store'"
      using lt r(2) set_most_recent[of 100 "metrics_history mon @ [r]"] by auto
    show ?thesis using rec lt' r(1,3) Some
      by (simp add: tracks_intended_def sp end_optimization_def Let_def history_records_def
            truncate_is_most_recent)
  qed
qed

lemma tracks_fold:
  "tracks_intended stale mon sp \<Longrightarrow> ends_fresh stale cs \<Longrightarrow>
     history_records (foldl monitor_step mon cs)
       = most_recent 100 (snd (foldl intended_step sp cs))"
proof (induction cs arbitrary: stale mon sp)
  case Nil
  then show ?case by (simp add: tracks_intended_def)
next
  case (Cons c cs)
  show ?case
  proof (cases c)
    case (Start now a b k)
    with Cons.prems have "ends_fresh False cs" by simp
    from Cons.IH[OF tracks_start[OF Cons.prems(1)] this] show ?thesis
      using Start by simp
  next
    case (End now mem cpu obj res del st)
    with Cons.prems have "\<not> stale" "ends_fresh True cs" by simp_all
    from Cons.IH[OF tracks_end this(2)] Cons.prems(1) \<open>\<not> stale\<close> show ?thesis
      using End by simp
  qed
qed

lemma history_is_recent_runs_when_ends_fresh:
  "ends_fresh False cs \<Longrightarrow>
     history_records (run_calls cs) = most_recent 100 (completed_runs cs)"
  unfolding run_calls_def completed_runs_def
  by (rule tracks_fold)
     (simp_all add: tracks_intended_def init_monitor_def history_records_def most_recent_def)

text \<open>
  Claim C9 at the calls \<open>start; end; end\<close>. \<open>end_optimization\<close> does not clear
  \<open>current_metrics\<close>, so the second \<open>end\<close> passes the guard, overwrites the record of
  the completed run and appends the same object again: the history shows two records,
  both with the values of the second call, where one run was completed.
\<close>

theorem end_twice_rerecords_run:
  "history_records (run_calls [Start 0 1 1 0, End 1 0 0 10 0 0 ''OPTIMAL'',
             End 2 0 0 20 0 0 ''INFEASIBLE''])
     = [record_final 2 0 0 20 0 0 ''INFEASIBLE''
          (record_final 1 0 0 10 0 0 ''OPTIMAL'' (new_metrics 0 1 1 0)),
        record_final 2 0 0 20 0 0 ''INFEASIBLE''
          (record_final 1 0 0 10 0 0 ''OPTIMAL'' (new_metrics 0 1 1 0))]
   \<and> most_recent 100 (completed_runs [Start 0 1 1 0, End 1 0 0 10 0 0 ''OPTIMAL'',
             End 2 0 0 20 0 0 ''INFEASIBLE''])
     = [record_final 1 0 0 10 0 0 ''OPTIMAL'' (new_metrics 0 1 1 0)]
   \<and> map objective_value_m (history_records (run_calls [Start 0 1 1 0,
          End 1 0 0 10 0 0 ''OPTIMAL'', End 2 0 0 20 0 0 ''INFEASIBLE''])) = [20, 20]"
  by (simp add: run_calls_def completed_runs_def most_recent_def history_records_def
        init_monitor_def start_optimization_def end_optimization_def Let_def record_final_def
        new_metrics_def)

end
